theory Spec2Isabelle
  imports Complex_Main "HOL-Library.Stream"
begin

section \<open>The ATM finder of \<^verbatim>\<open>app.py\<close>\<close>

text \<open>
  The embedded program is the Flask application of \<^verbatim>\<open>src/app.py\<close>: the function
  \<^verbatim>\<open>generate_mock_atms\<close>, the model class \<^verbatim>\<open>ATM\<close> with \<^verbatim>\<open>to_dict\<close>, and the two
  routes \<^verbatim>\<open>get_atms\<close> and \<^verbatim>\<open>get_atm\<close>.

  What the program takes from outside is an explicit input of the embedding:
  \<^item> the random module is a stream of raw draws (natural numbers), consumed one per
    call of the generator's primitive;
  \<^item> \<^verbatim>\<open>datetime.utcnow()\<close> is a stream of instants, in microseconds, one per call;
  \<^item> the C library's cosine is a function: the double it returns for
    \<^verbatim>\<open>math.cos(math.radians(x))\<close> at a finite \<open>x\<close>.

  Python's \<^verbatim>\<open>int\<close> is \<^typ>\<open>int\<close>. A Python \<^verbatim>\<open>float\<close> is a real number, an infinity or
  NaN; an operation whose exact result is out of the range of a double overflows as
  the double operation does. The rounding of the 53-bit significand is not modelled.
  A character is a code point below 256, the range of \<^typ>\<open>char\<close>. The database
  executes every statement unless a constraint of the table fails.
\<close>

subsection \<open>Exceptions\<close>

datatype error = ValueError | IndexError | ZeroDivisionError | OverflowError | IntegrityError

definition try_bind :: "error + 'a \<Rightarrow> ('a \<Rightarrow> error + 'b) \<Rightarrow> error + 'b" where
  "try_bind m f = (case m of Inl e \<Rightarrow> Inl e | Inr x \<Rightarrow> f x)"

subsection \<open>Floats\<close>

datatype pyfloat = Fin real | PInf | NInf | NaN

text \<open>
  The largest double is \<open>2^1024 - 2^971\<close>. Rounding to nearest, ties to even, takes an
  exact result to a double as long as its magnitude is below \<open>2^1024 - 2^970\<close>, and to
  an infinity from there on.
\<close>

definition overflow_at :: real where
  "overflow_at = 2 ^ 1024 - 2 ^ 970"

definition float_round :: "real \<Rightarrow> pyfloat" where
  "float_round r =
     (if overflow_at \<le> r then PInf
      else if r \<le> - overflow_at then NInf
      else Fin r)"

text \<open>\<^verbatim>\<open>a + b\<close> and \<^verbatim>\<open>a * b\<close> of two floats: neither raises.\<close>

fun float_add :: "pyfloat \<Rightarrow> pyfloat \<Rightarrow> pyfloat" where
  "float_add (Fin a) (Fin b) = float_round (a + b)"
| "float_add NaN b = NaN"
| "float_add a NaN = NaN"
| "float_add PInf NInf = NaN"
| "float_add NInf PInf = NaN"
| "float_add PInf b = PInf"
| "float_add a PInf = PInf"
| "float_add NInf b = NInf"
| "float_add a NInf = NInf"

definition float_neg :: "pyfloat \<Rightarrow> pyfloat" where
  "float_neg a = (case a of Fin r \<Rightarrow> Fin (- r) | PInf \<Rightarrow> NInf | NInf \<Rightarrow> PInf | NaN \<Rightarrow> NaN)"

text \<open>An infinity times a finite number: NaN for zero, else the infinity of the product's sign.\<close>

definition inf_times :: "pyfloat \<Rightarrow> real \<Rightarrow> pyfloat" where
  "inf_times i r = (if r = 0 then NaN else if 0 < r then i else float_neg i)"

fun float_mul :: "pyfloat \<Rightarrow> pyfloat \<Rightarrow> pyfloat" where
  "float_mul (Fin a) (Fin b) = float_round (a * b)"
| "float_mul NaN b = NaN"
| "float_mul a NaN = NaN"
| "float_mul (Fin a) PInf = inf_times PInf a"
| "float_mul (Fin a) NInf = inf_times NInf a"
| "float_mul PInf (Fin b) = inf_times PInf b"
| "float_mul NInf (Fin b) = inf_times NInf b"
| "float_mul PInf PInf = PInf"
| "float_mul NInf NInf = PInf"
| "float_mul PInf NInf = NInf"
| "float_mul NInf PInf = NInf"

definition float_abs :: "pyfloat \<Rightarrow> pyfloat" where
  "float_abs a = (case a of Fin r \<Rightarrow> Fin \<bar>r\<bar> | PInf \<Rightarrow> PInf | NInf \<Rightarrow> PInf | NaN \<Rightarrow> NaN)"

text \<open>
  \<^verbatim>\<open>a / b\<close> of two floats raises ZeroDivisionError for a zero divisor, whatever the
  dividend, and otherwise never raises.
\<close>

fun float_truediv :: "pyfloat \<Rightarrow> pyfloat \<Rightarrow> error + pyfloat" where
  "float_truediv (Fin a) (Fin b) = (if b = 0 then Inl ZeroDivisionError else Inr (float_round (a / b)))"
| "float_truediv a (Fin b) =
     (if b = 0 then Inl ZeroDivisionError
      else Inr (case a of NaN \<Rightarrow> NaN | _ \<Rightarrow> inf_times a b))"
| "float_truediv NaN b = Inr NaN"
| "float_truediv a NaN = Inr NaN"
| "float_truediv (Fin a) b = Inr (Fin 0)"
| "float_truediv a b = Inr NaN"

text \<open>
  An integer converts to a float unless it is too large: \<^verbatim>\<open>float(10**400)\<close> raises
  OverflowError. \<^verbatim>\<open>a / b\<close> of two integers is the quotient rounded once, and raises
  OverflowError when it is too large for a float.
\<close>

definition float_of_int :: "int \<Rightarrow> error + pyfloat" where
  "float_of_int i =
     (if overflow_at \<le> \<bar>real_of_int i\<bar> then Inl OverflowError else Inr (Fin (real_of_int i)))"

definition int_truediv :: "int \<Rightarrow> int \<Rightarrow> error + pyfloat" where
  "int_truediv a b =
     (if b = 0 then Inl ZeroDivisionError
      else if overflow_at \<le> \<bar>real_of_int a / real_of_int b\<bar> then Inl OverflowError
      else Inr (Fin (real_of_int a / real_of_int b)))"

text \<open>\<^verbatim>\<open>i * x\<close> and \<^verbatim>\<open>i / x\<close> of an integer and a float convert the integer first.\<close>

definition int_times_float :: "int \<Rightarrow> pyfloat \<Rightarrow> error + pyfloat" where
  "int_times_float i x = try_bind (float_of_int i) (\<lambda>a. Inr (float_mul a x))"

definition int_over_float :: "int \<Rightarrow> pyfloat \<Rightarrow> error + pyfloat" where
  "int_over_float i x = try_bind (float_of_int i) (\<lambda>a. float_truediv a x)"

text \<open>
  \<^verbatim>\<open>math.cos(math.radians(x))\<close>: the cosine raises ValueError at an infinity and
  returns NaN at NaN; at a finite \<open>x\<close> the value is the C library's.
\<close>

definition cos_of_radians :: "(real \<Rightarrow> real) \<Rightarrow> pyfloat \<Rightarrow> error + pyfloat" where
  "cos_of_radians libm x =
     (case x of
        Fin r \<Rightarrow> Inr (Fin (libm r))
      | NaN \<Rightarrow> Inr NaN
      | PInf \<Rightarrow> Inl ValueError
      | NInf \<Rightarrow> Inl ValueError)"

subsection \<open>The random module\<close>

text \<open>
  Every function of the module is built on one primitive, a draw below a bound:
  \<^verbatim>\<open>_randbelow(n)\<close>. Here it reduces the next raw draw modulo \<open>n\<close>, so that over all
  streams it takes every value of \<open>0..n-1\<close> and no other. \<^verbatim>\<open>random()\<close> is a 53-bit
  integer divided by \<open>2^53\<close>. \<^verbatim>\<open>randint(a, b)\<close> is \<^verbatim>\<open>a + _randbelow(b - a + 1)\<close> and
  raises ValueError on an empty range; \<^verbatim>\<open>choice(seq)\<close> is \<^verbatim>\<open>seq[_randbelow(len(seq))]\<close>
  and raises IndexError on an empty sequence.
\<close>

type_synonym rng = "nat stream"

definition randbelow :: "nat \<Rightarrow> rng \<Rightarrow> nat \<times> rng" where
  "randbelow n g = (shd g mod n, stl g)"

definition random_random :: "rng \<Rightarrow> real \<times> rng" where
  "random_random g = (real (shd g mod 2 ^ 53) / 2 ^ 53, stl g)"

definition random_randint :: "int \<Rightarrow> int \<Rightarrow> rng \<Rightarrow> error + int \<times> rng" where
  "random_randint a b g =
     (if b < a then Inl ValueError
      else case randbelow (nat (b - a + 1)) g of (r, g') \<Rightarrow> Inr (a + int r, g'))"

definition random_choice :: "'a list \<Rightarrow> rng \<Rightarrow> error + 'a \<times> rng" where
  "random_choice seq g =
     (if seq = [] then Inl IndexError
      else case randbelow (length seq) g of (i, g') \<Rightarrow> Inr (seq ! i, g'))"

text \<open>
  \<^verbatim>\<open>sample(population, k)\<close> raises ValueError unless \<open>0 \<le> k \<le> n\<close>. For a population
  of at most 21 entries (the service list has 6) CPython selects from a pool:
  \<^verbatim>\<open>
    pool = list(population)
    for i in range(k):
        j = randbelow(n - i)
        result[i] = pool[j]
        pool[j] = pool[n - i - 1]
  \<close>
  Only the first \<open>n - i\<close> entries of the pool are ever read again, so the pool of the
  embedding is that live prefix: after a selection the last live entry moves to
  position \<open>j\<close> and the prefix loses its last position.
\<close>

fun sample_pool :: "'a list \<Rightarrow> nat \<Rightarrow> rng \<Rightarrow> 'a list \<times> rng" where
  "sample_pool pool 0 g = ([], g)"
| "sample_pool pool (Suc k) g =
     (case randbelow (length pool) g of (j, g1) \<Rightarrow>
      case sample_pool (butlast (pool[j := last pool])) k g1 of (rest, g2) \<Rightarrow>
        (pool ! j # rest, g2))"

definition random_sample :: "'a list \<Rightarrow> int \<Rightarrow> rng \<Rightarrow> error + 'a list \<times> rng" where
  "random_sample population k g =
     (if 0 \<le> k \<and> k \<le> int (length population)
      then Inr (sample_pool population (nat k) g)
      else Inl ValueError)"

subsection \<open>Strings of numbers\<close>

text \<open>\<^verbatim>\<open>str\<close> of an integer, as the f-string of the address formats the street number.\<close>

definition digit_char :: "nat \<Rightarrow> char" where
  "digit_char d = ''0123456789'' ! d"

fun str_nat :: "nat \<Rightarrow> string" where
  "str_nat n =
     (if n < 10 then [digit_char n]
      else str_nat (n div 10) @ [digit_char (n mod 10)])"

definition str_int :: "int \<Rightarrow> string" where
  "str_int i = (if i < 0 then CHR ''-'' # str_nat (nat (- i)) else str_nat (nat i))"

subsection \<open>generate_mock_atms\<close>

text \<open>
  The dictionary the loop builds, with the keys \<^verbatim>\<open>name\<close>, \<^verbatim>\<open>lat\<close>, \<^verbatim>\<open>lng\<close>, \<^verbatim>\<open>address\<close>
  and \<^verbatim>\<open>services\<close>; the fields carry the prefix \<open>atm_\<close>, the bare names being the
  parameters of the functions.
\<close>

record mock_atm =
  atm_name :: string
  atm_lat :: pyfloat
  atm_lng :: pyfloat
  atm_address :: string
  atm_services :: "string list"

definition bank_names :: "string list" where
  "bank_names =
     [''United Bank'', ''Citizens Financial'', ''First National'', ''Metro Credit Union'',
      ''Community Bank'', ''Urban Trust'', ''Heritage Bank'', ''Liberty Financial'',
      ''Capital One'', ''Chase'', ''Wells Fargo'', ''Bank of America'']"

definition street_names :: "string list" where
  "street_names =
     [''Main St'', ''Oak Ave'', ''Maple Rd'', ''Broadway'', ''Park Ave'',
      ''Washington St'', ''Market St'', ''State St'', ''Water St'', ''Commerce Way'']"

definition all_services :: "string list" where
  "all_services =
     [''Cash Withdrawal'', ''Cash Deposit'', ''Cardless Withdrawal'',
      ''Balance Inquiry'', ''Check Deposit'', ''Bill Payment'']"

text \<open>
  The two statements before the loop:
  \<^verbatim>\<open>
    radius_lat = radius / 111000
    radius_lng = radius / (111000 * abs(math.cos(math.radians(lat))))
  \<close>
  The first is a division of integers. In the second the divisor is evaluated
  first, then the radius is converted, then the floats are divided.
\<close>

definition radius_lat_of :: "int \<Rightarrow> error + pyfloat" where
  "radius_lat_of radius = int_truediv radius 111000"

definition radius_lng_of :: "(real \<Rightarrow> real) \<Rightarrow> pyfloat \<Rightarrow> int \<Rightarrow> error + pyfloat" where
  "radius_lng_of libm lat radius =
     try_bind (cos_of_radians libm lat) (\<lambda>c.
     try_bind (int_times_float 111000 (float_abs c)) (\<lambda>divisor.
     int_over_float radius divisor))"

text \<open>
  \<^verbatim>\<open>(random.random() * 2 - 1)\<close>: a float of \<open>[-1, 1)\<close>, from the draw \<open>u\<close> of \<open>[0, 1)\<close>.
\<close>

definition offset_factor :: "real \<Rightarrow> pyfloat" where
  "offset_factor u = Fin (u * 2 - 1)"

text \<open>One pass of the loop body: seven draws, in the order of the source.\<close>

definition mock_atm_body :: "pyfloat \<Rightarrow> pyfloat \<Rightarrow> pyfloat \<Rightarrow> pyfloat \<Rightarrow> rng \<Rightarrow> error + mock_atm \<times> rng" where
  "mock_atm_body lat lng radius_lat radius_lng g0 =
     (case random_random g0 of (u, g1) \<Rightarrow>
      case random_random g1 of (v, g2) \<Rightarrow>
      try_bind (random_choice bank_names g2) (\<lambda>(bank, g3).
      try_bind (random_randint 1 999 g3) (\<lambda>(street_number, g4).
      try_bind (random_choice street_names g4) (\<lambda>(street, g5).
      try_bind (random_randint 2 4 g5) (\<lambda>(service_count, g6).
      try_bind (random_sample all_services service_count g6) (\<lambda>(services, g7).
      Inr (\<lparr>atm_name = bank @ '' ATM'',
            atm_lat = float_add lat (float_mul (offset_factor u) radius_lat),
            atm_lng = float_add lng (float_mul (offset_factor v) radius_lng),
            atm_address = str_int street_number @ '' '' @ street,
            atm_services = services\<rparr>, g7)))))))"

text \<open>\<^verbatim>\<open>for i in range(count)\<close>: \<open>n\<close> passes, each appending one dictionary.\<close>

fun mock_atms_loop :: "nat \<Rightarrow> pyfloat \<Rightarrow> pyfloat \<Rightarrow> pyfloat \<Rightarrow> pyfloat \<Rightarrow> rng \<Rightarrow> error + mock_atm list \<times> rng" where
  "mock_atms_loop 0 lat lng radius_lat radius_lng g = Inr ([], g)"
| "mock_atms_loop (Suc n) lat lng radius_lat radius_lng g =
     try_bind (mock_atm_body lat lng radius_lat radius_lng g) (\<lambda>(atm, g').
     try_bind (mock_atms_loop n lat lng radius_lat radius_lng g') (\<lambda>(atms, g'').
     Inr (atm # atms, g'')))"

text \<open>\<^verbatim>\<open>range(count)\<close> of a negative count is empty: the loop runs \<open>nat count\<close> times.\<close>

definition generate_mock_atms :: "(real \<Rightarrow> real) \<Rightarrow> pyfloat \<Rightarrow> pyfloat \<Rightarrow> int \<Rightarrow> int \<Rightarrow> rng \<Rightarrow> error + mock_atm list \<times> rng" where
  "generate_mock_atms libm lat lng radius count g =
     try_bind (radius_lat_of radius) (\<lambda>radius_lat.
     try_bind (radius_lng_of libm lat radius) (\<lambda>radius_lng.
       mock_atms_loop (nat count) lat lng radius_lat radius_lng g))"

subsection \<open>Query parameters\<close>

text \<open>
  \<^verbatim>\<open>float(s)\<close> and \<^verbatim>\<open>int(s)\<close> of a string. Whitespace around the number is dropped: the
  ASCII whitespace and, of the code points below 256, U+0085 and U+00A0. A sign may
  come first, digits may be grouped by single underscores, and anything else raises
  ValueError. \<^verbatim>\<open>float\<close> reads the decimal literals (\<^verbatim>\<open>12\<close>, \<^verbatim>\<open>12.\<close>, \<^verbatim>\<open>.5\<close>, \<^verbatim>\<open>12.5e-3\<close>) and,
  in any mix of upper and lower case, \<^verbatim>\<open>inf\<close>, \<^verbatim>\<open>infinity\<close> and \<^verbatim>\<open>nan\<close>. A literal too
  large for a double is an infinity, one nearer to zero than half the smallest
  double is zero.
\<close>

definition is_space :: "char \<Rightarrow> bool" where
  "is_space c =
     (c \<in> set [CHR '' '', CHR 0x09, CHR 0x0A, CHR 0x0B, CHR 0x0C, CHR 0x0D, CHR 0x85, CHR 0xA0])"

definition strip :: "string \<Rightarrow> string" where
  "strip s = rev (dropWhile is_space (rev (dropWhile is_space s)))"

definition is_digit :: "char \<Rightarrow> bool" where
  "is_digit c = (c \<in> set ''0123456789'')"

definition digit_val :: "char \<Rightarrow> nat" where
  "digit_val c = of_char c - 48"

text \<open>A digit part: a digit, then digits each optionally preceded by one underscore.\<close>

fun digitpart_from :: "nat \<Rightarrow> bool \<Rightarrow> string \<Rightarrow> nat option" where
  "digitpart_from acc after_digit [] = (if after_digit then Some acc else None)"
| "digitpart_from acc after_digit (c # cs) =
     (if is_digit c then digitpart_from (10 * acc + digit_val c) True cs
      else if c = CHR ''_'' \<and> after_digit then digitpart_from acc False cs
      else None)"

definition digitpart :: "string \<Rightarrow> nat option" where
  "digitpart s = digitpart_from 0 False s"

definition split_sign :: "string \<Rightarrow> bool \<times> string" where
  "split_sign s =
     (case s of
        [] \<Rightarrow> (False, [])
      | c # cs \<Rightarrow>
          if c = CHR ''-'' then (True, cs)
          else if c = CHR ''+'' then (False, cs)
          else (False, s))"

definition signed :: "bool \<Rightarrow> nat \<Rightarrow> int" where
  "signed neg n = (if neg then - int n else int n)"

definition py_int :: "string \<Rightarrow> error + int" where
  "py_int s =
     (let (neg, ds) = split_sign (strip s)
      in case digitpart ds of
           None \<Rightarrow> Inl ValueError
         | Some n \<Rightarrow> Inr (signed neg n))"

definition split_at :: "(char \<Rightarrow> bool) \<Rightarrow> string \<Rightarrow> string \<times> string option" where
  "split_at p s =
     (takeWhile (\<lambda>c. \<not> p c) s,
      case dropWhile (\<lambda>c. \<not> p c) s of [] \<Rightarrow> None | _ # r \<Rightarrow> Some r)"

definition count_digits :: "string \<Rightarrow> nat" where
  "count_digits s = length (filter is_digit s)"

text \<open>The fraction after the point: its digits, scaled by their number.\<close>

definition fraction :: "string \<Rightarrow> real option" where
  "fraction fp = map_option (\<lambda>f. real f / 10 ^ count_digits fp) (digitpart fp)"

text \<open>The number before the exponent: \<^verbatim>\<open>12\<close>, \<^verbatim>\<open>12.\<close>, \<^verbatim>\<open>12.5\<close> or \<^verbatim>\<open>.5\<close>.\<close>

definition mantissa :: "string \<Rightarrow> real option" where
  "mantissa m =
     (let (ip, point) = split_at (\<lambda>c. c = CHR ''.'') m
      in if point = None \<or> point = Some [] then map_option real (digitpart ip)
         else if ip = [] then fraction (the point)
         else if digitpart ip = None \<or> fraction (the point) = None then None
         else Some (real (the (digitpart ip)) + the (fraction (the point))))"

definition exponent :: "string option \<Rightarrow> int option" where
  "exponent e =
     (if e = None then Some 0
      else let (neg, ds) = split_sign (the e) in map_option (signed neg) (digitpart ds))"

definition scale :: "real \<Rightarrow> int \<Rightarrow> real" where
  "scale v k = (if 0 \<le> k then v * 10 ^ nat k else v / 10 ^ nat (- k))"

text \<open>The number a decimal literal without its sign denotes, if it is one.\<close>

definition decimal :: "string \<Rightarrow> real option" where
  "decimal s =
     (let (m, e) = split_at (\<lambda>c. c = CHR ''e'' \<or> c = CHR ''E'') s
      in if mantissa m = None \<or> exponent e = None then None
         else Some (scale (the (mantissa m)) (the (exponent e))))"

text \<open>The double nearest to the number of a literal.\<close>

definition float_of_literal :: "real \<Rightarrow> pyfloat" where
  "float_of_literal r = (if \<bar>r\<bar> \<le> 1 / 2 ^ 1075 then Fin 0 else float_round r)"

text \<open>A word in any mix of cases: each character is the lower or the upper one.\<close>

definition spells :: "string \<Rightarrow> string \<Rightarrow> string \<Rightarrow> bool" where
  "spells s lower upper = list_all2 (\<lambda>c lu. c = fst lu \<or> c = snd lu) s (zip lower upper)"

definition py_float :: "string \<Rightarrow> error + pyfloat" where
  "py_float s =
     (let (neg, rest) = split_sign (strip s)
      in if spells rest ''inf'' ''INF'' \<or> spells rest ''infinity'' ''INFINITY''
           then Inr (if neg then NInf else PInf)
         else if spells rest ''nan'' ''NAN'' then Inr NaN
         else if decimal rest = None then Inl ValueError
         else Inr (float_of_literal (if neg then - the (decimal rest) else the (decimal rest))))"

text \<open>
  \<^verbatim>\<open>request.args\<close>: the value of each key present in the query string.
  \<^verbatim>\<open>float(request.args.get(key, default))\<close> converts the default itself when the
  key is absent, and the string when it is present.
\<close>

type_synonym args = "string \<rightharpoonup> string"

definition DEFAULT_RADIUS :: int where
  "DEFAULT_RADIUS = 1000"

definition float_arg :: "args \<Rightarrow> string \<Rightarrow> int \<Rightarrow> error + pyfloat" where
  "float_arg a key dflt = (case a key of None \<Rightarrow> float_of_int dflt | Some s \<Rightarrow> py_float s)"

definition int_arg :: "args \<Rightarrow> string \<Rightarrow> int \<Rightarrow> error + int" where
  "int_arg a key dflt = (case a key of None \<Rightarrow> Inr dflt | Some s \<Rightarrow> py_int s)"

subsection \<open>The ATM table\<close>

text \<open>
  A row of the model class: the five columns a generated dictionary fills, the
  primary key and the fetch instant (a nullable column).
\<close>

record ATM = mock_atm +
  atm_id :: nat
  fetched_at :: "int option"

datatype isoformat = Isoformat int

record atm_dict =
  dict_id :: nat
  dict_name :: string
  dict_lat :: pyfloat
  dict_lng :: pyfloat
  dict_address :: string
  dict_services :: "string list"
  dict_fetched_at :: "isoformat option"

definition to_dict :: "ATM \<Rightarrow> atm_dict" where
  "to_dict a =
     \<lparr>dict_id = atm_id a,
      dict_name = atm_name a,
      dict_lat = atm_lat a,
      dict_lng = atm_lng a,
      dict_address = atm_address a,
      dict_services = atm_services a,
      dict_fetched_at = map_option Isoformat (fetched_at a)\<rparr>"

text \<open>
  The table is the list of its committed rows, in rowid order. SQLite gives a new row
  of an integer primary key the largest key of the table plus one, and 1 in an empty
  table. A pending row is a generated dictionary with the instant its constructor
  read; the commit inserts the pending rows in the order they were added.
\<close>

definition next_rowid :: "ATM list \<Rightarrow> nat" where
  "next_rowid table = Suc (fold max (map atm_id table) 0)"

definition insert_row :: "ATM list \<Rightarrow> mock_atm \<times> int \<Rightarrow> ATM list" where
  "insert_row table p =
     table @
       [\<lparr>atm_name = atm_name (fst p),
         atm_lat = atm_lat (fst p),
         atm_lng = atm_lng (fst p),
         atm_address = atm_address (fst p),
         atm_services = atm_services (fst p),
         atm_id = next_rowid table,
         fetched_at = Some (snd p)\<rparr>]"

definition flush :: "ATM list \<Rightarrow> (mock_atm \<times> int) list \<Rightarrow> ATM list" where
  "flush table pending = foldl insert_row table pending"

text \<open>
  The columns \<^verbatim>\<open>lat\<close> and \<^verbatim>\<open>lng\<close> are declared \<^verbatim>\<open>nullable=False\<close>, and SQLite stores a NaN
  as NULL: a commit whose pending rows hold a NaN fails with IntegrityError and
  inserts none of them. An infinity is stored as it is.
\<close>

definition null_column :: "mock_atm \<Rightarrow> bool" where
  "null_column atm = (atm_lat atm = NaN \<or> atm_lng atm = NaN)"

definition commit_rows :: "ATM list \<Rightarrow> (mock_atm \<times> int) list \<Rightarrow> error + ATM list" where
  "commit_rows table pending =
     (if list_ex (\<lambda>p. null_column (fst p)) pending then Inl IntegrityError
      else Inr (flush table pending))"

text \<open>The five columns of a row that its dictionary filled.\<close>

definition columns_of :: "ATM \<Rightarrow> mock_atm" where
  "columns_of r =
     \<lparr>atm_name = atm_name r,
      atm_lat = atm_lat r,
      atm_lng = atm_lng r,
      atm_address = atm_address r,
      atm_services = atm_services r\<rparr>"

definition utcnow :: "int stream \<Rightarrow> int \<times> int stream" where
  "utcnow c = (shd c, stl c)"

text \<open>The loop over \<^verbatim>\<open>atm_data\<close>: each row reads the clock in its constructor.\<close>

fun session_add_all :: "mock_atm list \<Rightarrow> int stream \<Rightarrow> (mock_atm \<times> int) list \<times> int stream" where
  "session_add_all [] c = ([], c)"
| "session_add_all (atm # rest) c =
     (case utcnow c of (t, c1) \<Rightarrow>
      case session_add_all rest c1 of (pending, c2) \<Rightarrow> ((atm, t) # pending, c2))"

text \<open>\<^verbatim>\<open>ATM.fetched_at >= fifteen_mins_ago\<close>: a NULL instant matches no comparison.\<close>

definition fetched_since :: "int \<Rightarrow> ATM \<Rightarrow> bool" where
  "fetched_since t a = (case fetched_at a of None \<Rightarrow> False | Some f \<Rightarrow> t \<le> f)"

definition minutes :: "int \<Rightarrow> int" where
  "minutes m = m * 60000000"

subsection \<open>The routes\<close>

datatype message = Literal string | Str error

datatype body = AtmsBody "atm_dict list" | AtmBody atm_dict | ErrorBody message

datatype response = Response (status: nat) (payload: body)

record world =
  clock :: "int stream"
  draws :: rng
  cos_radians :: "real \<Rightarrow> real"

text \<open>
  The refresh of \<^verbatim>\<open>get_atms\<close>, when the generated list is not empty: the table is
  emptied and that is committed, the rows are added, each reading the clock, and
  committed; then the whole table is read. The result is the rows to render or the
  exception raised, and the table as the request leaves it: when the second commit
  fails, the table stays empty.
\<close>

definition refresh :: "int stream \<Rightarrow> mock_atm list \<Rightarrow> ATM list \<Rightarrow> (error + ATM list) \<times> ATM list" where
  "refresh c atm_data table =
     (if atm_data \<noteq> [] then
        case commit_rows [] (fst (session_add_all atm_data c)) of
          Inl e \<Rightarrow> (Inl e, [])
        | Inr rows \<Rightarrow> (Inr rows, rows)
      else (Inr table, table))"

text \<open>
  The body of the \<^verbatim>\<open>try\<close> of \<^verbatim>\<open>get_atms\<close>: the rows to render or the exception raised,
  and the table as the request leaves it.
\<close>

definition get_atms_try :: "world \<Rightarrow> args \<Rightarrow> ATM list \<Rightarrow> (error + ATM list) \<times> ATM list" where
  "get_atms_try w a table =
     (case float_arg a ''lat'' 0 of Inl e \<Rightarrow> (Inl e, table) | Inr lat \<Rightarrow>
     (case float_arg a ''lng'' 0 of Inl e \<Rightarrow> (Inl e, table) | Inr lng \<Rightarrow>
     (case int_arg a ''radius'' DEFAULT_RADIUS of Inl e \<Rightarrow> (Inl e, table) | Inr radius \<Rightarrow>
     (case utcnow (clock w) of (now, c) \<Rightarrow>
      let fifteen_mins_ago = now - minutes 15;
          fresh_atms = filter (fetched_since fifteen_mins_ago) table
      in if fresh_atms = [] then
           (case random_randint 5 15 (draws w) of Inl e \<Rightarrow> (Inl e, table) | Inr (num_atms, g) \<Rightarrow>
           (case generate_mock_atms (cos_radians w) lat lng radius num_atms g of
              Inl e \<Rightarrow> (Inl e, table)
            | Inr (atm_data, g') \<Rightarrow> refresh c atm_data table))
         else (Inr fresh_atms, table)))))"

definition get_atms :: "world \<Rightarrow> args \<Rightarrow> ATM list \<Rightarrow> response \<times> ATM list" where
  "get_atms w a table =
     (case get_atms_try w a table of
        (Inr atms, table') \<Rightarrow> (Response 200 (AtmsBody (map to_dict atms)), table')
      | (Inl e, table') \<Rightarrow> (Response 500 (ErrorBody (Str e)), table'))"

text \<open>
  \<^verbatim>\<open>ATM.query.get(atm_id)\<close>: the row of that primary key, if any. The route takes
  any string of digits as the id; SQLite's integers are of 64 bits, and binding a
  larger one raises OverflowError.
\<close>

definition query_get :: "ATM list \<Rightarrow> nat \<Rightarrow> error + ATM option" where
  "query_get table i =
     (if 2 ^ 63 \<le> i then Inl OverflowError else Inr (find (\<lambda>a. atm_id a = i) table))"

definition get_atm :: "ATM list \<Rightarrow> nat \<Rightarrow> response" where
  "get_atm table i =
     (case query_get table i of
        Inl e \<Rightarrow> Response 500 (ErrorBody (Str e))
      | Inr None \<Rightarrow> Response 404 (ErrorBody (Literal ''ATM not found''))
      | Inr (Some atm) \<Rightarrow> Response 200 (AtmBody (to_dict atm)))"

subsection \<open>Tables the requests can produce\<close>

text \<open>
  The number of dictionaries a refresh asks for: \<^verbatim>\<open>random.randint(5, 15)\<close>, the first
  draw of the request.
\<close>

definition num_atms_of :: "world \<Rightarrow> int" where
  "num_atms_of w = 5 + int (shd (draws w) mod 11)"

text \<open>
  The rows are the batch written from a list of dictionaries when they hold the
  dictionaries in their order, under the keys 1, 2, ..., each with the instant the
  clock gave for it.
\<close>

definition batch_of :: "mock_atm list \<Rightarrow> int stream \<Rightarrow> ATM list \<Rightarrow> bool" where
  "batch_of atm_data c rows \<longleftrightarrow>
     map columns_of rows = atm_data
     \<and> map atm_id rows = [1..<Suc (length atm_data)]
     \<and> map fetched_at rows = map Some (stake (length atm_data) c)"

text \<open>
  The table holds one generation's output when it is the whole batch of the refresh
  of some request: all the dictionaries \<^verbatim>\<open>generate_mock_atms\<close> returned, from the
  parameters of that request, for the number that request drew.
\<close>

definition one_generation :: "ATM list \<Rightarrow> bool" where
  "one_generation table \<longleftrightarrow>
     (\<exists>w a lat lng radius atm_data g'.
        float_arg a ''lat'' 0 = Inr lat
        \<and> float_arg a ''lng'' 0 = Inr lng
        \<and> int_arg a ''radius'' DEFAULT_RADIUS = Inr radius
        \<and> generate_mock_atms (cos_radians w) lat lng radius (num_atms_of w) (stl (draws w))
          = Inr (atm_data, g')
        \<and> length atm_data = nat (num_atms_of w)
        \<and> batch_of atm_data (stl (clock w)) table)"

text \<open>
  The tables reachable from the empty one by requests. Only \<^verbatim>\<open>get_atms\<close> writes;
  each request meets a world of its own.
\<close>

inductive reachable :: "ATM list \<Rightarrow> bool" where
  empty: "reachable []"
| request: "reachable table \<Longrightarrow> reachable (snd (get_atms w a table))"

subsection \<open>A concrete run\<close>

text \<open>
  The cosine of the run: the doubles CPython returns for
  \<^verbatim>\<open>math.cos(math.radians(x))\<close> at \<open>x = 90\<close> and \<open>x = 89.999\<close>,
  \<^verbatim>\<open>6.123233995736766e-17\<close> and \<^verbatim>\<open>1.7453292519072936e-05\<close>, and elsewhere the cosine of
  the reals (1 at \<open>x = 0\<close>, as the double is).
\<close>

definition libm0 :: "real \<Rightarrow> real" where
  "libm0 x =
     (if x = 90 then 4967757600021511 / 2 ^ 106
      else if x = 89999 / 1000 then 5151302725486847 / 2 ^ 68
      else cos (x * pi / 180))"

text \<open>
  A world whose clock reads \<open>t\<close>, \<open>t + 1\<close>, \<open>t + 2\<close>, ... microseconds and whose random
  draws are all zero.
\<close>

definition world_at :: "int \<Rightarrow> world" where
  "world_at t = \<lparr>clock = siterate (\<lambda>x. x + 1) t, draws = sconst 0, cos_radians = libm0\<rparr>"

text \<open>The dictionary every pass of the loop builds from zero draws.\<close>

definition atm0 :: "pyfloat \<Rightarrow> pyfloat \<Rightarrow> mock_atm" where
  "atm0 lat lng =
     \<lparr>atm_name = ''United Bank ATM'',
      atm_lat = lat,
      atm_lng = lng,
      atm_address = ''1 Main St'',
      atm_services = [''Cash Withdrawal'', ''Bill Payment'']\<rparr>"

text \<open>
  The row written for that dictionary around the default centre \<open>(0, 0)\<close> with the
  default radius, and the five rows of the first request of a world started at 0.
\<close>

definition row0 :: "nat \<Rightarrow> ATM" where
  "row0 i =
     \<lparr>atm_name = ''United Bank ATM'',
      atm_lat = Fin (- (1 / 111)),
      atm_lng = Fin (- (1 / 111)),
      atm_address = ''1 Main St'',
      atm_services = [''Cash Withdrawal'', ''Bill Payment''],
      atm_id = i,
      fetched_at = Some (int i)\<rparr>"

definition batch0 :: "ATM list" where
  "batch0 = [row0 1, row0 2, row0 3, row0 4, row0 5]"

text \<open>
  The longitude span of the default radius at the latitude 89.999, with the cosine
  of the run: about 516 degrees.
\<close>

definition near_pole_span :: real where
  "near_pole_span = 1000 / (111000 * (5151302725486847 / 2 ^ 68))"

text \<open>The decimal numeral of a power of ten: \<^verbatim>\<open>1\<close> and \<open>n\<close> zeros.\<close>

definition power_of_ten :: "nat \<Rightarrow> string" where
  "power_of_ten n = CHR ''1'' # replicate n CHR ''0''"


section \<open>Properties of the embedding\<close>

subsection \<open>The random module\<close>

lemma random_random_range: "0 \<le> fst (random_random g) \<and> fst (random_random g) < 1"
  by (simp add: random_random_def)

lemma random_randint_Inr:
  assumes "a \<le> b"
  shows "\<exists>r. random_randint a b g = Inr (r, stl g) \<and> a \<le> r \<and> r \<le> b"
proof -
  have "0 < nat (b - a + 1)" using assms by simp
  then have "shd g mod nat (b - a + 1) < nat (b - a + 1)" by simp
  then have "a + int (shd g mod nat (b - a + 1)) \<le> b" using assms by linarith
  then show ?thesis using assms by (simp add: random_randint_def randbelow_def)
qed

lemma random_choice_Inr:
  assumes "seq \<noteq> []"
  shows "\<exists>x. random_choice seq g = Inr (x, stl g) \<and> x \<in> set seq"
  using assms by (simp add: random_choice_def randbelow_def)

lemma swap_remove:
  assumes "distinct pool" and "j < length pool"
  shows "distinct (butlast (pool[j := last pool]))
    \<and> set (butlast (pool[j := last pool])) = set pool - {pool ! j}"
proof (cases pool rule: rev_cases)
  case Nil
  with assms show ?thesis by simp
next
  case (snoc xs l)
  show ?thesis
  proof (cases "j = length xs")
    case True
    with snoc assms show ?thesis by auto
  next
    case False
    with snoc assms have j: "j < length xs" by simp
    have d: "distinct xs" and l: "l \<notin> set xs" using snoc assms by auto
    have eq: "butlast (pool[j := last pool]) = xs[j := l]"
      using snoc j by (simp add: list_update_append)
    have "distinct (xs[j := l])" using d l by (simp add: distinct_list_update)
    moreover have "set (xs[j := l]) = insert l (set xs - {xs ! j})"
      using d j by (rule set_update_distinct)
    moreover have "pool ! j = xs ! j" using snoc j by (simp add: nth_append)
    moreover have "xs ! j \<noteq> l" using l j by (metis nth_mem)
    ultimately show ?thesis using snoc eq l by auto
  qed
qed

lemma sample_pool_sound:
  "k \<le> length pool \<Longrightarrow> distinct pool \<Longrightarrow>
     length (fst (sample_pool pool k g)) = k
     \<and> distinct (fst (sample_pool pool k g))
     \<and> set (fst (sample_pool pool k g)) \<subseteq> set pool"
proof (induction k arbitrary: pool g)
  case 0
  then show ?case by simp
next
  case (Suc k)
  let ?j = "shd g mod length pool"
  let ?pool = "butlast (pool[?j := last pool])"
  from Suc.prems have pos: "0 < length pool" by (cases pool) simp_all
  then have j: "?j < length pool" by simp
  from swap_remove [OF Suc.prems(2) j]
  have d: "distinct ?pool" and s: "set ?pool = set pool - {pool ! ?j}" by simp_all
  have len: "k \<le> length ?pool" using Suc.prems(1) by simp
  note ih = Suc.IH [OF len d, of "stl g"]
  have mem: "pool ! ?j \<in> set pool" using j by simp
  show ?case
    using ih s mem
    by (auto simp: randbelow_def split: prod.splits)
qed

lemma random_sample_Inr:
  assumes "0 \<le> k" and "k \<le> int (length population)" and "distinct population"
  shows "\<exists>xs g'. random_sample population k g = Inr (xs, g') \<and> int (length xs) = k
    \<and> distinct xs \<and> set xs \<subseteq> set population"
proof -
  have "nat k \<le> length population" using assms by simp
  from sample_pool_sound [OF this assms(3), of g] assms(1,2)
  show ?thesis
    by (cases "sample_pool population (nat k) g") (simp add: random_sample_def)
qed

lemma all_services_distinct: "distinct all_services \<and> length all_services = 6"
  by (simp add: all_services_def)

subsection \<open>Floats\<close>

lemma overflow_at_large: "10 ^ 308 < overflow_at"
  by (simp add: overflow_at_def)

lemma overflow_at_less: "overflow_at < 10 ^ 309"
  by (simp add: overflow_at_def)

lemma float_round_Fin: "\<bar>r\<bar> < overflow_at \<Longrightarrow> float_round r = Fin r"
  by (auto simp: float_round_def)

lemma float_round_PInf: "overflow_at \<le> r \<Longrightarrow> float_round r = PInf"
  by (simp add: float_round_def)

lemma float_round_NInf: "r \<le> - overflow_at \<Longrightarrow> float_round r = NInf"
  using overflow_at_large by (simp add: float_round_def)

lemma float_round_not_NaN: "float_round r \<noteq> NaN"
  by (simp add: float_round_def)

lemma float_round_small: "\<bar>r\<bar> \<le> 10 ^ 308 \<Longrightarrow> float_round r = Fin r"
  using overflow_at_large by (intro float_round_Fin) linarith

text \<open>A sum or a product is NaN only from a NaN or from infinities.\<close>

lemma float_mul_Fin_Fin: "float_mul (Fin a) (Fin b) \<noteq> NaN"
  by (simp add: float_round_not_NaN)

lemma float_add_Fin: "z \<noteq> NaN \<Longrightarrow> float_add (Fin a) z \<noteq> NaN"
  by (cases z) (simp_all add: float_round_not_NaN)

text \<open>Whatever is added to an infinity or a NaN, the sum is not a finite number.\<close>

lemma float_add_not_Fin: "\<forall>r. z \<noteq> Fin r \<Longrightarrow> float_add l z \<noteq> Fin q"
  by (cases l; cases z) simp_all

lemma inf_times_not_Fin: "i = PInf \<or> i = NInf \<Longrightarrow> inf_times i r \<noteq> Fin q"
  by (auto simp: inf_times_def float_neg_def)

lemma float_mul_inf_not_Fin: "z = PInf \<or> z = NInf \<Longrightarrow> float_mul (Fin f) z \<noteq> Fin q"
  using inf_times_not_Fin [of z f q] by auto

lemma not_Fin_cases: "(\<forall>r. z \<noteq> Fin r) \<longleftrightarrow> z = PInf \<or> z = NInf \<or> z = NaN"
  by (cases z) simp_all

subsection \<open>The two spans\<close>

lemma radius_lat_of_Inr:
  assumes "\<bar>real_of_int radius\<bar> < overflow_at"
  shows "radius_lat_of radius = Inr (Fin (real_of_int radius / 111000))"
proof -
  have "\<bar>real_of_int radius / 111000\<bar> \<le> \<bar>real_of_int radius\<bar>"
    by (simp add: field_simps)
  with assms show ?thesis by (simp add: radius_lat_of_def int_truediv_def)
qed

lemma radius_lat_of_Inl:
  assumes "overflow_at \<le> \<bar>real_of_int radius / 111000\<bar>"
  shows "radius_lat_of radius = Inl OverflowError"
  using assms by (simp add: radius_lat_of_def int_truediv_def)

text \<open>The divisor of the second span at a finite latitude.\<close>

lemma divisor_Fin:
  assumes "\<bar>c\<bar> \<le> 1"
  shows "int_times_float 111000 (float_abs (Fin c)) = Inr (Fin (111000 * \<bar>c\<bar>))"
proof -
  have "\<bar>111000 * \<bar>c\<bar>\<bar> \<le> 10 ^ 308" using assms by simp
  then have "float_round (111000 * \<bar>c\<bar>) = Fin (111000 * \<bar>c\<bar>)" by (rule float_round_small)
  moreover have "float_of_int 111000 = Inr (Fin 111000)"
    using overflow_at_large by (simp add: float_of_int_def)
  ultimately show ?thesis by (simp add: int_times_float_def try_bind_def float_abs_def)
qed

lemma radius_lng_of_infinite:
  "lat = PInf \<or> lat = NInf \<Longrightarrow> radius_lng_of libm lat radius = Inl ValueError"
  by (auto simp: radius_lng_of_def cos_of_radians_def try_bind_def)

lemma float_of_int_Inr:
  "\<bar>real_of_int i\<bar> < overflow_at \<Longrightarrow> float_of_int i = Inr (Fin (real_of_int i))"
  by (simp add: float_of_int_def)

lemma radius_lng_of_NaN:
  assumes "\<bar>real_of_int radius\<bar> < overflow_at"
  shows "radius_lng_of libm NaN radius = Inr NaN"
  using float_of_int_Inr [OF assms] overflow_at_large
  by (simp add: radius_lng_of_def cos_of_radians_def try_bind_def int_times_float_def
      int_over_float_def float_abs_def float_of_int_def)

text \<open>
  At a finite latitude whose cosine is not zero the second span is the quotient, or
  an infinity when the quotient overflows.
\<close>

lemma radius_lng_of_Fin:
  assumes "\<bar>real_of_int radius\<bar> < overflow_at" and "libm x \<noteq> 0"
  shows "\<exists>rg. radius_lng_of libm (Fin x) radius = Inr rg \<and> rg \<noteq> NaN
    \<and> (\<bar>real_of_int radius / (111000 * \<bar>libm x\<bar>)\<bar> < overflow_at \<longrightarrow> (\<exists>q. rg = Fin q))
    \<and> (\<bar>libm x\<bar> \<le> 1 \<longrightarrow> rg = float_round (real_of_int radius / (111000 * \<bar>libm x\<bar>)))"
proof -
  let ?d = "111000 * \<bar>libm x\<bar>"
  have pos: "0 < ?d" using assms(2) by simp
  have r: "float_of_int radius = Inr (Fin (real_of_int radius))"
    using assms(1) by (rule float_of_int_Inr)
  have k: "float_of_int 111000 = Inr (Fin 111000)"
    using overflow_at_large by (simp add: float_of_int_def)
  have d: "int_times_float 111000 (float_abs (Fin (libm x))) = Inr (float_round ?d)"
    using k by (simp add: int_times_float_def try_bind_def float_abs_def)
  show ?thesis
  proof (cases "?d < overflow_at")
    case True
    then have "float_round ?d = Fin ?d" using pos by (intro float_round_Fin) simp
    with d r pos have "radius_lng_of libm (Fin x) radius
        = Inr (float_round (real_of_int radius / ?d))"
      by (simp add: radius_lng_of_def cos_of_radians_def try_bind_def int_over_float_def)
    then show ?thesis
      using float_round_not_NaN float_round_Fin by auto
  next
    case False
    then have "float_round ?d = PInf" by (intro float_round_PInf) simp
    with d r have "radius_lng_of libm (Fin x) radius = Inr (Fin 0)"
      by (simp add: radius_lng_of_def cos_of_radians_def try_bind_def int_over_float_def)
    moreover have "\<not> \<bar>libm x\<bar> \<le> 1"
    proof
      assume "\<bar>libm x\<bar> \<le> 1"
      then have "?d \<le> 10 ^ 308" by simp
      with overflow_at_large False show False by linarith
    qed
    ultimately show ?thesis by simp
  qed
qed

subsection \<open>The generator\<close>

lemma mock_atm_body_Inr:
  "\<exists>bank number street services g'.
     bank \<in> set bank_names \<and> 1 \<le> number \<and> number \<le> 999 \<and> street \<in> set street_names
     \<and> 2 \<le> length services \<and> length services \<le> 4 \<and> distinct services
     \<and> set services \<subseteq> set all_services
     \<and> mock_atm_body lat lng rl rg g =
         Inr (\<lparr>atm_name = bank @ '' ATM'',
               atm_lat = float_add lat (float_mul (offset_factor (fst (random_random g))) rl),
               atm_lng = float_add lng (float_mul (offset_factor (fst (random_random (stl g)))) rg),
               atm_address = str_int number @ '' '' @ street,
               atm_services = services\<rparr>, g')"
proof -
  let ?g2 = "stl (stl g)"
  have "bank_names \<noteq> []" by (simp add: bank_names_def)
  from random_choice_Inr [OF this, of ?g2]
  obtain bank where bank: "random_choice bank_names ?g2 = Inr (bank, stl ?g2)"
    "bank \<in> set bank_names"
    by blast
  let ?g3 = "stl ?g2"
  have "(1::int) \<le> 999" by simp
  from random_randint_Inr [OF this, of ?g3]
  obtain number where number: "random_randint 1 999 ?g3 = Inr (number, stl ?g3)"
    "1 \<le> number" "number \<le> 999"
    by blast
  let ?g4 = "stl ?g3"
  have "street_names \<noteq> []" by (simp add: street_names_def)
  from random_choice_Inr [OF this, of ?g4]
  obtain street where street: "random_choice street_names ?g4 = Inr (street, stl ?g4)"
    "street \<in> set street_names"
    by blast
  let ?g5 = "stl ?g4"
  have "(2::int) \<le> 4" by simp
  from random_randint_Inr [OF this, of ?g5]
  obtain k where k: "random_randint 2 4 ?g5 = Inr (k, stl ?g5)" "2 \<le> k" "k \<le> 4"
    by blast
  let ?g6 = "stl ?g5"
  have "0 \<le> k" "k \<le> int (length all_services)"
    using k all_services_distinct by simp_all
  from random_sample_Inr [OF this, of ?g6] all_services_distinct
  obtain services g7 where services: "random_sample all_services k ?g6 = Inr (services, g7)"
    "int (length services) = k" "distinct services" "set services \<subseteq> set all_services"
    by blast
  have len: "2 \<le> length services" "length services \<le> 4"
    using services(2) k(2,3) by simp_all
  have "mock_atm_body lat lng rl rg g =
         Inr (\<lparr>atm_name = bank @ '' ATM'',
               atm_lat = float_add lat (float_mul (offset_factor (fst (random_random g))) rl),
               atm_lng = float_add lng (float_mul (offset_factor (fst (random_random (stl g)))) rg),
               atm_address = str_int number @ '' '' @ street,
               atm_services = services\<rparr>, g7)"
    using bank(1) number(1) street(1) k(1) services(1)
    by (simp add: mock_atm_body_def random_random_def try_bind_def)
  with bank(2) number(2,3) street(2) len services(3,4) show ?thesis by blast
qed

lemma mock_atm_body_props:
  assumes "mock_atm_body lat lng rl rg h = Inr (atm, r)"
  shows "(\<exists>bank. bank \<in> set bank_names \<and> atm_name atm = bank @ '' ATM'')
    \<and> atm_lat atm = float_add lat (float_mul (offset_factor (fst (random_random h))) rl)
    \<and> atm_lng atm = float_add lng (float_mul (offset_factor (fst (random_random (stl h)))) rg)
    \<and> (\<exists>number street. 1 \<le> number \<and> number \<le> 999 \<and> street \<in> set street_names
          \<and> atm_address atm = str_int number @ '' '' @ street)
    \<and> 2 \<le> length (atm_services atm) \<and> length (atm_services atm) \<le> 4
    \<and> distinct (atm_services atm) \<and> set (atm_services atm) \<subseteq> set all_services"
proof -
  from mock_atm_body_Inr [of lat lng rl rg h]
  obtain bank number street services g' where f:
    "bank \<in> set bank_names" "1 \<le> number" "number \<le> 999" "street \<in> set street_names"
    "2 \<le> length services" "length services \<le> 4" "distinct services"
    "set services \<subseteq> set all_services"
    "mock_atm_body lat lng rl rg h =
       Inr (\<lparr>atm_name = bank @ '' ATM'',
             atm_lat = float_add lat (float_mul (offset_factor (fst (random_random h))) rl),
             atm_lng = float_add lng (float_mul (offset_factor (fst (random_random (stl h)))) rg),
             atm_address = str_int number @ '' '' @ street,
             atm_services = services\<rparr>, g')"
    by blast
  from f(9) assms have atm: "atm = \<lparr>atm_name = bank @ '' ATM'',
             atm_lat = float_add lat (float_mul (offset_factor (fst (random_random h))) rl),
             atm_lng = float_add lng (float_mul (offset_factor (fst (random_random (stl h)))) rg),
             atm_address = str_int number @ '' '' @ street,
             atm_services = services\<rparr>"
    by simp
  have "\<exists>b. b \<in> set bank_names \<and> atm_name atm = b @ '' ATM''"
    using f(1) atm by (intro exI [of _ bank]) simp
  moreover have "\<exists>n s. 1 \<le> n \<and> n \<le> 999 \<and> s \<in> set street_names
          \<and> atm_address atm = str_int n @ '' '' @ s"
    using f(2,3,4) atm by (intro exI [of _ number] exI [of _ street]) simp
  ultimately show ?thesis using f(5,6,7,8) atm by simp
qed

lemma mock_atms_loop_Inr:
  "\<exists>atms g'. mock_atms_loop n lat lng rl rg g = Inr (atms, g') \<and> length atms = n
     \<and> (\<forall>atm \<in> set atms. \<exists>h r. mock_atm_body lat lng rl rg h = Inr (atm, r))"
proof (induction n arbitrary: g)
  case 0
  show ?case by simp
next
  case (Suc n)
  obtain atm g1 where b: "mock_atm_body lat lng rl rg g = Inr (atm, g1)"
    using mock_atm_body_Inr [of lat lng rl rg g] by blast
  from Suc.IH [of g1] obtain atms g2 where
    l: "mock_atms_loop n lat lng rl rg g1 = Inr (atms, g2)" "length atms = n"
    "\<forall>a \<in> set atms. \<exists>h r. mock_atm_body lat lng rl rg h = Inr (a, r)"
    by blast
  have "mock_atms_loop (Suc n) lat lng rl rg g = Inr (atm # atms, g2)"
    using b l(1) by (simp add: try_bind_def)
  moreover have "\<forall>a \<in> set (atm # atms). \<exists>h r. mock_atm_body lat lng rl rg h = Inr (a, r)"
    using b l(3) by auto
  ultimately show ?case using l(2) by auto
qed

text \<open>The generator returns a list exactly when both spans are computed.\<close>

lemma generate_mock_atms_spans:
  assumes "radius_lat_of radius = Inr rl" and "radius_lng_of libm lat radius = Inr rg"
  shows "\<exists>atms g'. generate_mock_atms libm lat lng radius count g = Inr (atms, g')
     \<and> length atms = nat count
     \<and> (\<forall>atm \<in> set atms. \<exists>h r. mock_atm_body lat lng rl rg h = Inr (atm, r))"
  using assms mock_atms_loop_Inr [of "nat count" lat lng rl rg g]
  by (simp add: generate_mock_atms_def try_bind_def)

lemma generate_mock_atms_Inr:
  assumes "generate_mock_atms libm lat lng radius count g = Inr (atms, g')"
  shows "length atms = nat count
    \<and> (\<exists>rl rg. radius_lat_of radius = Inr rl \<and> radius_lng_of libm lat radius = Inr rg
          \<and> (\<forall>atm \<in> set atms. \<exists>h r. mock_atm_body lat lng rl rg h = Inr (atm, r)))"
proof -
  from assms obtain rl where rl: "radius_lat_of radius = Inr rl"
    by (cases "radius_lat_of radius") (simp_all add: generate_mock_atms_def try_bind_def)
  from assms rl obtain rg where rg: "radius_lng_of libm lat radius = Inr rg"
    by (cases "radius_lng_of libm lat radius") (simp_all add: generate_mock_atms_def try_bind_def)
  from generate_mock_atms_spans [OF rl rg, of lng count g] assms rl rg show ?thesis by auto
qed

lemma generate_mock_atms_lat_error:
  "radius_lat_of radius = Inl e \<Longrightarrow> generate_mock_atms libm lat lng radius count g = Inl e"
  by (simp add: generate_mock_atms_def try_bind_def)

lemma generate_mock_atms_lng_error:
  "radius_lat_of radius = Inr rl \<Longrightarrow> radius_lng_of libm lat radius = Inl e
     \<Longrightarrow> generate_mock_atms libm lat lng radius count g = Inl e"
  by (simp add: generate_mock_atms_def try_bind_def)

text \<open>The conditions under which both spans are computed.\<close>

lemma spans_computed:
  assumes "lat \<noteq> PInf" and "lat \<noteq> NInf" and "\<bar>real_of_int radius\<bar> < overflow_at"
    and "\<forall>x. lat = Fin x \<longrightarrow> libm x \<noteq> 0"
  shows "\<exists>rl rg. radius_lat_of radius = Inr rl \<and> radius_lng_of libm lat radius = Inr rg"
proof (cases lat)
  case (Fin x)
  with assms(4) have "libm x \<noteq> 0" by simp
  from radius_lng_of_Fin [of radius libm x] assms(3) this
  obtain rg where "radius_lng_of libm (Fin x) radius = Inr rg" by blast
  with radius_lat_of_Inr [OF assms(3)] Fin show ?thesis by simp
next
  case NaN
  with radius_lng_of_NaN [OF assms(3)] radius_lat_of_Inr [OF assms(3)] show ?thesis by auto
qed (use assms in simp_all)

subsection \<open>The run on zero draws\<close>

lemma mock_atm_body_zero:
  assumes "shd g = 0" and "stl g = g"
  shows "mock_atm_body lat lng rl rg g =
    Inr (atm0 (float_add lat (float_mul (Fin (- 1)) rl)) (float_add lng (float_mul (Fin (- 1)) rg)), g)"
  using assms
  by (simp add: mock_atm_body_def random_random_def random_choice_def random_randint_def
      random_sample_def try_bind_def bank_names_def street_names_def all_services_def
      randbelow_def str_int_def digit_char_def atm0_def offset_factor_def numeral_2_eq_2)

lemma mock_atms_loop_zero:
  assumes "shd g = 0" and "stl g = g"
  shows "mock_atms_loop n lat lng rl rg g =
    Inr (replicate n
      (atm0 (float_add lat (float_mul (Fin (- 1)) rl)) (float_add lng (float_mul (Fin (- 1)) rg))), g)"
  by (induction n) (simp_all add: mock_atm_body_zero [OF assms] try_bind_def)

lemma generate_sconst:
  assumes "radius_lat_of radius = Inr rl" and "radius_lng_of libm lat radius = Inr rg"
  shows "generate_mock_atms libm lat lng radius n (sconst 0) =
    Inr (replicate (nat n)
      (atm0 (float_add lat (float_mul (Fin (- 1)) rl)) (float_add lng (float_mul (Fin (- 1)) rg))),
      sconst 0)"
proof -
  have "mock_atms_loop (nat n) lat lng rl rg (sconst 0) =
    Inr (replicate (nat n)
      (atm0 (float_add lat (float_mul (Fin (- 1)) rl)) (float_add lng (float_mul (Fin (- 1)) rg))),
      sconst 0)"
    by (rule mock_atms_loop_zero) simp_all
  with assms show ?thesis
    by (simp add: generate_mock_atms_def try_bind_def)
qed

text \<open>The spans of the default request, and its dictionary.\<close>

lemma libm0_0: "libm0 0 = 1"
  by (simp add: libm0_def)

lemma radius_lat_of_1000: "radius_lat_of 1000 = Inr (Fin (1 / 111))"
  using radius_lat_of_Inr [of 1000] overflow_at_large by simp

lemma radius_lng_of_1000: "radius_lng_of libm0 (Fin 0) 1000 = Inr (Fin (1 / 111))"
proof -
  have "\<bar>real_of_int 1000\<bar> < overflow_at" using overflow_at_large by simp
  from radius_lng_of_Fin [of 1000 libm0 0] this libm0_0
  have "radius_lng_of libm0 (Fin 0) 1000 = Inr (float_round (1000 / 111000))" by auto
  moreover have "float_round (1000 / 111000) = Fin (1 / 111)"
    using float_round_small [of "1 / 111"] by simp
  ultimately show ?thesis by simp
qed

lemma default_position:
  "float_add (Fin 0) (float_mul (Fin (- 1)) (Fin (1 / 111))) = Fin (- (1 / 111))"
  using float_round_small [of "- (1 / 111)"] by simp

lemma generate_zero:
  "generate_mock_atms libm0 (Fin 0) (Fin 0) 1000 n (sconst 0)
     = Inr (replicate (nat n) (atm0 (Fin (- (1 / 111))) (Fin (- (1 / 111)))), sconst 0)"
  using generate_sconst [OF radius_lat_of_1000 radius_lng_of_1000, of "Fin 0" n]
  by (simp only: default_position)

text \<open>A radius too large for a float makes the generator raise, whatever the latitude.\<close>

lemma generate_mock_atms_overflow:
  assumes "overflow_at \<le> \<bar>real_of_int radius\<bar>"
  shows "\<exists>e. generate_mock_atms libm lat lng radius count g = Inl e"
proof (cases "radius_lat_of radius")
  case (Inl e)
  then show ?thesis by (simp add: generate_mock_atms_def try_bind_def)
next
  case (Inr rl)
  have r: "float_of_int radius = Inl OverflowError"
    using assms by (simp add: float_of_int_def)
  have "\<exists>e. radius_lng_of libm lat radius = Inl e"
  proof (cases "cos_of_radians libm lat")
    case (Inl e)
    then show ?thesis by (simp add: radius_lng_of_def try_bind_def)
  next
    case c: (Inr c)
    have "float_of_int 111000 = Inr (Fin 111000)"
      using overflow_at_large by (simp add: float_of_int_def)
    then show ?thesis
      using c r by (simp add: radius_lng_of_def try_bind_def int_times_float_def int_over_float_def)
  qed
  then obtain e where "radius_lng_of libm lat radius = Inl e" by blast
  from generate_mock_atms_lng_error [OF Inr this] show ?thesis by blast
qed

text \<open>A span that is an infinity or NaN makes every longitude an infinity or NaN.\<close>

lemma mock_atm_body_lng_not_Fin:
  assumes "mock_atm_body lat lng rl rg h = Inr (atm, r)" and "rg = PInf \<or> rg = NInf \<or> rg = NaN"
  shows "atm_lng atm = PInf \<or> atm_lng atm = NInf \<or> atm_lng atm = NaN"
proof -
  let ?f = "fst (random_random (stl h)) * 2 - 1"
  from mock_atm_body_props [OF assms(1)]
  have l: "atm_lng atm = float_add lng (float_mul (Fin ?f) rg)"
    by (simp add: offset_factor_def)
  have "\<forall>q. float_mul (Fin ?f) rg \<noteq> Fin q"
    using assms(2) float_mul_inf_not_Fin [of rg ?f] by auto
  then have "\<forall>q. atm_lng atm \<noteq> Fin q"
    using l float_add_not_Fin [of "float_mul (Fin ?f) rg" lng] by simp
  then show ?thesis by (simp add: not_Fin_cases)
qed

text \<open>Finite centres and finite spans give coordinates that are not NaN.\<close>

lemma mock_atm_body_not_null:
  assumes "mock_atm_body (Fin x) (Fin y) (Fin rl) (Fin rg) h = Inr (atm, r)"
  shows "\<not> null_column atm"
proof -
  from mock_atm_body_props [OF assms]
  have "atm_lat atm = float_add (Fin x) (float_mul (offset_factor (fst (random_random h))) (Fin rl))"
    and "atm_lng atm = float_add (Fin y) (float_mul (offset_factor (fst (random_random (stl h)))) (Fin rg))"
    by simp_all
  then show ?thesis
    by (simp add: null_column_def offset_factor_def float_add_Fin float_round_not_NaN)
qed

text \<open>The spans of the two runs near the pole.\<close>

lemma libm0_90: "libm0 90 = 4967757600021511 / 2 ^ 106"
  by (simp add: libm0_def)

lemma libm0_near_pole: "libm0 (89999 / 1000) = 5151302725486847 / 2 ^ 68"
  by (simp add: libm0_def)

lemma radius_lat_of_pole: "radius_lat_of (10 ^ 300) = Inr (Fin (10 ^ 300 / 111000))"
proof -
  have "\<bar>real_of_int (10 ^ 300)\<bar> < overflow_at"
    using overflow_at_large by simp
  from radius_lat_of_Inr [OF this] show ?thesis by simp
qed

lemma radius_lng_of_pole: "radius_lng_of libm0 (Fin 90) (10 ^ 300) = Inr PInf"
proof -
  have r: "\<bar>real_of_int (10 ^ 300)\<bar> < overflow_at"
    using overflow_at_large by simp
  have c: "libm0 90 \<noteq> 0" "\<bar>libm0 90\<bar> \<le> 1"
    by (simp_all add: libm0_90)
  from radius_lng_of_Fin [of "10 ^ 300" libm0 90] r c
  have "radius_lng_of libm0 (Fin 90) (10 ^ 300)
      = Inr (float_round (real_of_int (10 ^ 300) / (111000 * \<bar>libm0 90\<bar>)))"
    by auto
  moreover have "overflow_at \<le> real_of_int (10 ^ 300) / (111000 * \<bar>libm0 90\<bar>)"
    using overflow_at_less by (simp add: libm0_90 field_simps)
  ultimately show ?thesis by (simp only: float_round_PInf)
qed

lemma pole_position:
  "float_add (Fin 90) (float_mul (Fin (- 1)) (Fin (10 ^ 300 / 111000))) = Fin (90 - 10 ^ 300 / 111000)"
  "float_add (Fin 0) (float_mul (Fin (- 1)) PInf) = NInf"
proof -
  have "\<bar>- (10 ^ 300 / 111000 :: real)\<bar> \<le> 10 ^ 308" by simp
  then have a: "float_round (- (10 ^ 300 / 111000)) = Fin (- (10 ^ 300 / 111000))"
    by (rule float_round_small)
  have "\<bar>90 - 10 ^ 300 / 111000 :: real\<bar> \<le> 10 ^ 308" by simp
  then have b: "float_round (90 - 10 ^ 300 / 111000) = Fin (90 - 10 ^ 300 / 111000)"
    by (rule float_round_small)
  show "float_add (Fin 90) (float_mul (Fin (- 1)) (Fin (10 ^ 300 / 111000))) = Fin (90 - 10 ^ 300 / 111000)"
    using a b by simp
  show "float_add (Fin 0) (float_mul (Fin (- 1)) PInf) = NInf"
    by (simp add: inf_times_def float_neg_def)
qed

lemma generate_pole:
  "generate_mock_atms libm0 (Fin 90) (Fin 0) (10 ^ 300) n (sconst 0)
     = Inr (replicate (nat n) (atm0 (Fin (90 - 10 ^ 300 / 111000)) NInf), sconst 0)"
  using generate_sconst [OF radius_lat_of_pole radius_lng_of_pole, of "Fin 0" n]
  by (simp only: pole_position)

subsection \<open>Query parameters\<close>

lemma py_float_Inl: "py_float s = Inl e \<Longrightarrow> e = ValueError"
  by (simp add: py_float_def split: prod.splits if_splits)

lemma py_int_Inl: "py_int s = Inl e \<Longrightarrow> e = ValueError"
  by (simp add: py_int_def split: prod.splits option.splits)

lemma float_of_int_0: "float_of_int 0 = Inr (Fin 0)"
  using overflow_at_large by (simp add: float_of_int_def)

lemma float_arg_Inl:
  "float_arg a key 0 = Inl e \<Longrightarrow> e = ValueError \<and> (\<exists>s. a key = Some s \<and> py_float s = Inl ValueError)"
  by (auto simp: float_arg_def float_of_int_0 split: option.splits dest: py_float_Inl)

lemma int_arg_Inl:
  "int_arg a key dflt = Inl e \<Longrightarrow> e = ValueError \<and> (\<exists>s. a key = Some s \<and> py_int s = Inl ValueError)"
  by (auto simp: int_arg_def split: option.splits dest: py_int_Inl)

lemma float_arg_empty: "float_arg Map.empty key 0 = Inr (Fin 0)"
  by (simp add: float_arg_def float_of_int_0)

lemma int_arg_empty: "int_arg Map.empty key dflt = Inr dflt"
  by (simp add: int_arg_def)

lemma float_of_literal_0: "float_of_literal 0 = Fin 0"
  by (simp add: float_of_literal_def)

lemma float_of_literal_Fin:
  assumes "1 / 1000000 \<le> \<bar>r\<bar>" and "\<bar>r\<bar> \<le> 10 ^ 308"
  shows "float_of_literal r = Fin r"
proof -
  have "(1::real) / 2 ^ 1075 < 1 / 1000000" by simp
  with assms(1) have "\<not> \<bar>r\<bar> \<le> 1 / 2 ^ 1075" by linarith
  with float_round_small [OF assms(2)] show ?thesis by (simp add: float_of_literal_def)
qed

lemma py_float_0: "py_float ''0'' = Inr (Fin 0)"
  by (simp add: py_float_def split_sign_def strip_def is_space_def split_at_def mantissa_def
      exponent_def scale_def digitpart_def is_digit_def digit_val_def decimal_def spells_def
      float_of_literal_0)

lemma py_float_abc: "py_float ''abc'' = Inl ValueError"
  by (simp add: py_float_def split_sign_def strip_def is_space_def split_at_def mantissa_def
      exponent_def scale_def digitpart_def is_digit_def digit_val_def decimal_def spells_def)

lemma py_float_nan: "py_float ''nan'' = Inr NaN"
  by (simp add: py_float_def split_sign_def strip_def is_space_def spells_def)

lemma py_float_90: "py_float ''90'' = Inr (Fin 90)"
proof -
  have "float_of_literal 90 = Fin 90" by (rule float_of_literal_Fin) simp_all
  then show ?thesis
    by (simp add: py_float_def split_sign_def strip_def is_space_def split_at_def mantissa_def
      exponent_def scale_def digitpart_def is_digit_def digit_val_def decimal_def spells_def)
qed

lemma py_float_near_pole: "py_float ''89.999'' = Inr (Fin (89999 / 1000))"
proof -
  have "float_of_literal (89999 / 1000) = Fin (89999 / 1000)"
    by (rule float_of_literal_Fin) simp_all
  then show ?thesis
    by (simp add: py_float_def split_sign_def strip_def is_space_def split_at_def mantissa_def
      fraction_def exponent_def scale_def digitpart_def is_digit_def digit_val_def decimal_def
      spells_def count_digits_def)
qed

lemma py_float_lat: "py_float ''40.7128'' = Inr (Fin (407128 / 10000))"
proof -
  have "float_of_literal (407128 / 10000) = Fin (407128 / 10000)"
    by (rule float_of_literal_Fin) simp_all
  then show ?thesis
    by (simp add: py_float_def split_sign_def strip_def is_space_def split_at_def mantissa_def
      fraction_def exponent_def scale_def digitpart_def is_digit_def digit_val_def decimal_def
      spells_def count_digits_def)
qed

lemma py_float_lng: "py_float ''-74.0060'' = Inr (Fin (- (740060 / 10000)))"
proof -
  have "float_of_literal (- (740060 / 10000)) = Fin (- (740060 / 10000))"
    by (rule float_of_literal_Fin) simp_all
  then show ?thesis
    by (simp add: py_float_def split_sign_def strip_def is_space_def split_at_def mantissa_def
      fraction_def exponent_def scale_def digitpart_def is_digit_def digit_val_def decimal_def
      spells_def count_digits_def)
qed

lemma py_int_1000: "py_int ''1000'' = Inr 1000"
  by (simp add: py_int_def split_sign_def strip_def is_space_def signed_def digitpart_def
      is_digit_def digit_val_def)

lemma py_int_500: "py_int ''500'' = Inr 500"
  by (simp add: py_int_def split_sign_def strip_def is_space_def signed_def digitpart_def
      is_digit_def digit_val_def)

text \<open>The numeral of a power of ten is read as that power.\<close>

lemma digitpart_zeros:
  "digitpart_from acc True (replicate n CHR ''0'') = Some (acc * 10 ^ n)"
  by (induction n arbitrary: acc) (simp_all add: is_digit_def digit_val_def)

lemma strip_power_of_ten: "strip (power_of_ten n) = power_of_ten n"
proof -
  have a: "dropWhile is_space (power_of_ten n) = power_of_ten n"
    by (simp add: power_of_ten_def is_space_def)
  have "rev (power_of_ten n) = replicate n CHR ''0'' @ [CHR ''1'']"
    by (simp add: power_of_ten_def)
  moreover have "dropWhile is_space (replicate n CHR ''0'' @ [CHR ''1''])
      = replicate n CHR ''0'' @ [CHR ''1'']"
    by (cases n) (simp_all add: is_space_def)
  ultimately have "dropWhile is_space (rev (power_of_ten n)) = rev (power_of_ten n)"
    by simp
  with a show ?thesis by (simp add: strip_def)
qed

lemma py_int_power_of_ten: "py_int (power_of_ten n) = Inr (10 ^ n)"
proof -
  have "split_sign (power_of_ten n) = (False, power_of_ten n)"
    by (simp add: split_sign_def power_of_ten_def)
  moreover have "digitpart (power_of_ten n) = Some (10 ^ n)"
    using digitpart_zeros [of 1 n]
    by (simp add: digitpart_def power_of_ten_def is_digit_def digit_val_def)
  ultimately show ?thesis
    by (simp add: py_int_def strip_power_of_ten signed_def)
qed

subsection \<open>The rows a refresh writes\<close>

lemma session_add_all_eq:
  "session_add_all atm_data c = (zip atm_data (stake (length atm_data) c), sdrop (length atm_data) c)"
  by (induction atm_data arbitrary: c) (simp_all add: utcnow_def)

lemma length_flush: "length (flush table pending) = length table + length pending"
  unfolding flush_def
  by (induction pending arbitrary: table) (simp_all add: insert_row_def)

lemma columns_of_flush:
  "map columns_of (flush table pending) = map columns_of table @ map fst pending"
  unfolding flush_def
  by (induction pending arbitrary: table) (simp_all add: insert_row_def columns_of_def)

lemma fetched_at_flush:
  "map fetched_at (flush table pending) = map fetched_at table @ map (\<lambda>p. Some (snd p)) pending"
  unfolding flush_def
  by (induction pending arbitrary: table) (simp_all add: insert_row_def)

lemma fold_max_upt: "fold max [1..<Suc k] (0::nat) = k"
  by (induction k) simp_all

lemma atm_id_flush: "map atm_id (flush [] pending) = [1..<Suc (length pending)]"
proof (induction pending rule: rev_induct)
  case Nil
  show ?case by (simp add: flush_def)
next
  case (snoc p ps)
  have "flush [] (ps @ [p]) = insert_row (flush [] ps) p"
    by (simp add: flush_def)
  moreover have "next_rowid (flush [] ps) = Suc (length ps)"
    using snoc.IH by (simp only: next_rowid_def fold_max_upt)
  ultimately show ?case
    using snoc.IH by (simp add: insert_row_def)
qed

lemma map_snd_zip_eq: "length xs = length ys \<Longrightarrow> map (\<lambda>p. f (snd p)) (zip xs ys) = map f ys"
  by (induction xs ys rule: list_induct2) simp_all

lemma batch_of_new_rows:
  "batch_of atm_data c (flush [] (fst (session_add_all atm_data c)))"
  by (simp add: batch_of_def session_add_all_eq columns_of_flush atm_id_flush fetched_at_flush
      map_snd_zip_eq del: stake_siterate upt_Suc)

text \<open>A batch is determined by its dictionaries and the clock.\<close>

lemma ATM_eqI:
  fixes r s :: ATM
  assumes "columns_of r = columns_of s" and "atm_id r = atm_id s" and "fetched_at r = fetched_at s"
  shows "r = s"
  using assms by (cases r; cases s) (simp add: columns_of_def)

lemma batch_of_unique:
  assumes "batch_of atm_data c rows" and "batch_of atm_data c rows'"
  shows "rows = rows'"
proof -
  from assms have l: "length rows = length rows'"
    by (metis batch_of_def length_map)
  have "rows ! i = rows' ! i" if "i < length rows" for i
  proof -
    have "map columns_of rows ! i = map columns_of rows' ! i"
      "map atm_id rows ! i = map atm_id rows' ! i"
      "map fetched_at rows ! i = map fetched_at rows' ! i"
      using assms by (simp_all add: batch_of_def)
    then show ?thesis using that l by (intro ATM_eqI) simp_all
  qed
  with l show ?thesis by (simp add: list_eq_iff_nth_eq)
qed

lemma length_batch_of: "batch_of atm_data c rows \<Longrightarrow> length rows = length atm_data"
  by (metis batch_of_def length_map)

lemma atm_lng_batch_of: "batch_of atm_data c rows \<Longrightarrow> map atm_lng rows = map atm_lng atm_data"
proof -
  assume "batch_of atm_data c rows"
  then have "map columns_of rows = atm_data" by (simp add: batch_of_def)
  then have "map atm_lng (map columns_of rows) = map atm_lng atm_data" by simp
  then show ?thesis by (simp add: columns_of_def comp_def)
qed

lemma list_ex_fst_zip:
  "length xs = length ys \<Longrightarrow> list_ex (\<lambda>p. P (fst p)) (zip xs ys) = list_ex P xs"
  by (induction xs ys rule: list_induct2) simp_all

lemma null_pending:
  "list_ex (\<lambda>p. null_column (fst p)) (fst (session_add_all atm_data c)) = list_ex null_column atm_data"
  by (simp add: session_add_all_eq list_ex_fst_zip del: stake_siterate)

lemma refresh_cases:
  assumes "atm_data \<noteq> []"
  shows "refresh c atm_data table =
     (if list_ex null_column atm_data then (Inl IntegrityError, [])
      else (Inr (flush [] (fst (session_add_all atm_data c))),
            flush [] (fst (session_add_all atm_data c))))"
  using assms by (simp add: refresh_def commit_rows_def null_pending)

subsection \<open>Requests and the cache\<close>

lemma num_atms_range: "5 \<le> num_atms_of w \<and> num_atms_of w \<le> 15"
proof -
  have "shd (draws w) mod 11 < 11" by simp
  then show ?thesis unfolding num_atms_of_def by linarith
qed

lemma random_randint_5_15: "random_randint 5 15 (draws w) = Inr (num_atms_of w, stl (draws w))"
  by (simp add: random_randint_def randbelow_def num_atms_of_def)

lemma get_atms_try_parsed:
  assumes "float_arg a ''lat'' 0 = Inr lat" and "float_arg a ''lng'' 0 = Inr lng"
    and "int_arg a ''radius'' DEFAULT_RADIUS = Inr radius"
  shows "get_atms_try w a table =
    (if filter (fetched_since (shd (clock w) - minutes 15)) table = [] then
       (case generate_mock_atms (cos_radians w) lat lng radius (num_atms_of w) (stl (draws w)) of
          Inl e \<Rightarrow> (Inl e, table)
        | Inr (atm_data, g') \<Rightarrow> refresh (stl (clock w)) atm_data table)
     else (Inr (filter (fetched_since (shd (clock w) - minutes 15)) table), table))"
  using assms
  by (simp add: get_atms_try_def utcnow_def random_randint_5_15 Let_def)

lemma get_atms_try_unparsed:
  assumes "float_arg a ''lat'' 0 = Inl e
    \<or> float_arg a ''lng'' 0 = Inl e
    \<or> int_arg a ''radius'' DEFAULT_RADIUS = Inl e"
  shows "get_atms_try w a table = (Inl ValueError, table)"
  using assms
  by (auto simp: get_atms_try_def split: sum.splits dest: float_arg_Inl int_arg_Inl)

lemma get_atms_try_hit:
  assumes "float_arg a ''lat'' 0 = Inr lat" and "float_arg a ''lng'' 0 = Inr lng"
    and "int_arg a ''radius'' DEFAULT_RADIUS = Inr radius"
    and "filter (fetched_since (shd (clock w) - minutes 15)) table \<noteq> []"
  shows "get_atms_try w a table =
    (Inr (filter (fetched_since (shd (clock w) - minutes 15)) table), table)"
  using get_atms_try_parsed [OF assms(1,2,3), of w table] assms(4) by simp

text \<open>A miss whose generation raises: the exception is the answer, the table is untouched.\<close>

lemma get_atms_try_miss_error:
  assumes "float_arg a ''lat'' 0 = Inr lat" and "float_arg a ''lng'' 0 = Inr lng"
    and "int_arg a ''radius'' DEFAULT_RADIUS = Inr radius"
    and "filter (fetched_since (shd (clock w) - minutes 15)) table = []"
    and "generate_mock_atms (cos_radians w) lat lng radius (num_atms_of w) (stl (draws w)) = Inl e"
  shows "get_atms_try w a table = (Inl e, table)"
  using get_atms_try_parsed [OF assms(1,2,3), of w table] assms(4,5) by simp

text \<open>A miss whose generation returns: the list is not empty, so the table is replaced.\<close>

lemma get_atms_try_miss_rows:
  assumes "float_arg a ''lat'' 0 = Inr lat" and "float_arg a ''lng'' 0 = Inr lng"
    and "int_arg a ''radius'' DEFAULT_RADIUS = Inr radius"
    and "filter (fetched_since (shd (clock w) - minutes 15)) table = []"
    and "generate_mock_atms (cos_radians w) lat lng radius (num_atms_of w) (stl (draws w))
          = Inr (atm_data, g')"
  shows "length atm_data = nat (num_atms_of w) \<and> 5 \<le> length atm_data \<and> length atm_data \<le> 15
    \<and> get_atms_try w a table =
       (if list_ex null_column atm_data then (Inl IntegrityError, [])
        else (Inr (flush [] (fst (session_add_all atm_data (stl (clock w))))),
              flush [] (fst (session_add_all atm_data (stl (clock w))))))"
proof -
  from generate_mock_atms_Inr [OF assms(5)] have n: "length atm_data = nat (num_atms_of w)"
    by simp
  then have len: "5 \<le> length atm_data \<and> length atm_data \<le> 15"
    using num_atms_range [of w] by linarith
  then have ne: "atm_data \<noteq> []" by auto
  have "get_atms_try w a table = refresh (stl (clock w)) atm_data table"
    using get_atms_try_parsed [OF assms(1,2,3), of w table] assms(4,5) by simp
  with refresh_cases [OF ne, of "stl (clock w)" table] n len show ?thesis by simp
qed

lemma snd_get_atms: "snd (get_atms w a table) = snd (get_atms_try w a table)"
  by (simp add: get_atms_def split: prod.splits sum.splits)

lemma get_atms_Inr:
  "get_atms_try w a table = (Inr atms, table')
     \<Longrightarrow> get_atms w a table = (Response 200 (AtmsBody (map to_dict atms)), table')"
  by (simp add: get_atms_def)

lemma get_atms_Inl:
  "get_atms_try w a table = (Inl e, table')
     \<Longrightarrow> get_atms w a table = (Response 500 (ErrorBody (Str e)), table')"
  by (simp add: get_atms_def)

subsection \<open>The concrete run\<close>

lemma replicate5: "replicate 5 x = [x, x, x, x, x]"
  by (simp add: eval_nat_numeral)

lemma stake5: "stake 5 (siterate f x) = [x, f x, f (f x), f (f (f x)), f (f (f (f x)))]"
  by (simp add: eval_nat_numeral)

lemma world_at_simps:
  "shd (clock (world_at t)) = t"
  "stl (clock (world_at t)) = siterate (\<lambda>x. x + 1) (t + 1)"
  "cos_radians (world_at t) = libm0"
  "num_atms_of (world_at t) = 5"
  "stl (draws (world_at t)) = sconst 0"
  by (simp_all add: world_at_def num_atms_of_def)

lemma flush_batch0:
  "flush [] (fst (session_add_all (replicate 5 (atm0 (Fin (- (1 / 111))) (Fin (- (1 / 111)))))
      (siterate (\<lambda>x. x + 1) 1))) = batch0"
  unfolding session_add_all_eq fst_conv length_replicate
  unfolding replicate5 stake5
  by (simp add: flush_def insert_row_def next_rowid_def atm0_def batch0_def row0_def)

lemma atm0_not_null: "null_column (atm0 lat lng) \<longleftrightarrow> lat = NaN \<or> lng = NaN"
  by (simp add: null_column_def atm0_def)

lemma list_ex_replicate5: "list_ex P (replicate 5 x) = P x"
  unfolding replicate5 by simp

lemma first_request_try: "get_atms_try (world_at 0) Map.empty [] = (Inr batch0, batch0)"
proof -
  have g: "generate_mock_atms (cos_radians (world_at 0)) (Fin 0) (Fin 0) 1000
      (num_atms_of (world_at 0)) (stl (draws (world_at 0)))
    = Inr (replicate 5 (atm0 (Fin (- (1 / 111))) (Fin (- (1 / 111)))), sconst 0)"
    using generate_zero [of 5] by (simp add: world_at_simps)
  have r: "int_arg Map.empty ''radius'' DEFAULT_RADIUS = Inr 1000"
    by (simp add: int_arg_empty DEFAULT_RADIUS_def)
  have "filter (fetched_since (shd (clock (world_at 0)) - minutes 15)) [] = []" by simp
  from get_atms_try_miss_rows [OF float_arg_empty float_arg_empty r this g]
  show ?thesis
    by (simp add: list_ex_replicate5 atm0_not_null world_at_simps flush_batch0)
qed

lemma first_request:
  "get_atms (world_at 0) Map.empty [] = (Response 200 (AtmsBody (map to_dict batch0)), batch0)"
  using first_request_try by (rule get_atms_Inr)

lemma reachable_batch0: "reachable batch0"
  using reachable.request [OF reachable.empty, of "world_at 0" Map.empty]
  by (simp add: first_request)

lemma batch0_not_Nil: "batch0 \<noteq> []"
  by (simp add: batch0_def)

lemma filter_batch0:
  "filter (fetched_since (shd (clock (world_at (minutes 15 + 3))) - minutes 15)) batch0
     = [row0 3, row0 4, row0 5]"
  by (simp add: world_at_def fetched_since_def batch0_def row0_def)

lemma filter_batch0_fresh:
  "filter (fetched_since (shd (clock (world_at (minutes 15 + 1))) - minutes 15)) batch0 = batch0"
  by (simp add: world_at_def fetched_since_def batch0_def row0_def)

lemma filter_batch0_stale:
  "filter (fetched_since (shd (clock (world_at (minutes 16))) - minutes 15)) batch0 = []"
  by (simp add: world_at_def fetched_since_def batch0_def row0_def minutes_def)

lemma later_rows_differ: "map to_dict [row0 3, row0 4, row0 5] \<noteq> map to_dict batch0"
  by (simp add: batch0_def)

text \<open>A latitude that is NaN: every coordinate generated is NaN.\<close>

lemma generate_nan:
  "generate_mock_atms libm0 NaN (Fin 0) 1000 n (sconst 0)
     = Inr (replicate (nat n) (atm0 NaN NaN), sconst 0)"
proof -
  have "\<bar>real_of_int 1000\<bar> < overflow_at" using overflow_at_large by simp
  from generate_sconst [OF radius_lat_of_1000 radius_lng_of_NaN [OF this], of libm0 "Fin 0" n]
  show ?thesis by simp
qed

lemma nan_request_try:
  "get_atms_try (world_at (minutes 16)) [''lat'' \<mapsto> ''nan''] batch0 = (Inl IntegrityError, [])"
proof -
  let ?a = "[''lat'' \<mapsto> ''nan'']"
  let ?w = "world_at (minutes 16)"
  have 1: "float_arg ?a ''lat'' 0 = Inr NaN" by (simp add: float_arg_def py_float_nan)
  have 2: "float_arg ?a ''lng'' 0 = Inr (Fin 0)" by (simp add: float_arg_def float_of_int_0)
  have 3: "int_arg ?a ''radius'' DEFAULT_RADIUS = Inr 1000"
    by (simp add: int_arg_def DEFAULT_RADIUS_def)
  have g: "generate_mock_atms (cos_radians ?w) NaN (Fin 0) 1000 (num_atms_of ?w) (stl (draws ?w))
    = Inr (replicate 5 (atm0 NaN NaN), sconst 0)"
    using generate_nan [of 5] by (simp add: world_at_simps)
  from get_atms_try_miss_rows [OF 1 2 3 filter_batch0_stale g]
  show ?thesis by (simp add: list_ex_replicate5 atm0_not_null)
qed

text \<open>A radius of 401 digits: the first division of the generator overflows.\<close>

lemma generate_overflow:
  "generate_mock_atms libm lat lng (10 ^ 400) count g = Inl OverflowError"
proof -
  have "overflow_at \<le> \<bar>real_of_int (10 ^ 400) / 111000\<bar>"
    using overflow_at_less by simp
  from generate_mock_atms_lat_error [OF radius_lat_of_Inl [OF this]] show ?thesis .
qed

lemma overflow_request_try:
  "get_atms_try (world_at 0) [''radius'' \<mapsto> power_of_ten 400] [] = (Inl OverflowError, [])"
proof -
  let ?a = "[''radius'' \<mapsto> power_of_ten 400]"
  have 1: "float_arg ?a ''lat'' 0 = Inr (Fin 0)" by (simp add: float_arg_def float_of_int_0)
  have 2: "float_arg ?a ''lng'' 0 = Inr (Fin 0)" by (simp add: float_arg_def float_of_int_0)
  have 3: "int_arg ?a ''radius'' DEFAULT_RADIUS = Inr (10 ^ 400)"
    by (simp add: int_arg_def py_int_power_of_ten)
  have 4: "filter (fetched_since (shd (clock (world_at 0)) - minutes 15)) [] = []" by simp
  from get_atms_try_miss_error [OF 1 2 3 4 generate_overflow] show ?thesis .
qed

text \<open>The latitude 90 with a radius of 301 digits: the rows are written, with an infinite longitude.\<close>

lemma pole_request_try:
  "\<exists>rows. get_atms_try (world_at 0) [''lat'' \<mapsto> ''90'', ''radius'' \<mapsto> power_of_ten 300] []
      = (Inr rows, rows)
    \<and> batch_of (replicate 5 (atm0 (Fin (90 - 10 ^ 300 / 111000)) NInf))
        (stl (clock (world_at 0))) rows"
proof -
  let ?a = "[''lat'' \<mapsto> ''90'', ''radius'' \<mapsto> power_of_ten 300]"
  let ?w = "world_at 0"
  have 1: "float_arg ?a ''lat'' 0 = Inr (Fin 90)" by (simp add: float_arg_def py_float_90)
  have 2: "float_arg ?a ''lng'' 0 = Inr (Fin 0)" by (simp add: float_arg_def float_of_int_0)
  have 3: "int_arg ?a ''radius'' DEFAULT_RADIUS = Inr (10 ^ 300)"
    by (simp add: int_arg_def py_int_power_of_ten)
  have 4: "filter (fetched_since (shd (clock ?w) - minutes 15)) [] = []" by simp
  have g: "generate_mock_atms (cos_radians ?w) (Fin 90) (Fin 0) (10 ^ 300) (num_atms_of ?w)
      (stl (draws ?w))
    = Inr (replicate 5 (atm0 (Fin (90 - 10 ^ 300 / 111000)) NInf), sconst 0)"
    using generate_pole [of 5] by (simp add: world_at_simps)
  from get_atms_try_miss_rows [OF 1 2 3 4 g]
  have "get_atms_try ?w ?a [] =
      (Inr (flush [] (fst (session_add_all (replicate 5 (atm0 (Fin (90 - 10 ^ 300 / 111000)) NInf))
              (stl (clock ?w))))),
       flush [] (fst (session_add_all (replicate 5 (atm0 (Fin (90 - 10 ^ 300 / 111000)) NInf))
              (stl (clock ?w)))))"
    by (simp add: list_ex_replicate5 atm0_not_null)
  with batch_of_new_rows [of "replicate 5 (atm0 (Fin (90 - 10 ^ 300 / 111000)) NInf)"
      "stl (clock ?w)"]
  show ?thesis by blast
qed

text \<open>The latitude 89.999 with the default radius: a span of about 516 degrees.\<close>

lemma near_pole_span_bounds: "516 < near_pole_span \<and> near_pole_span < 517"
  by (simp add: near_pole_span_def field_simps)

lemma radius_lng_of_near_pole:
  "radius_lng_of libm0 (Fin (89999 / 1000)) 1000 = Inr (Fin near_pole_span)"
proof -
  have r: "\<bar>real_of_int 1000\<bar> < overflow_at" using overflow_at_large by simp
  have c: "libm0 (89999 / 1000) \<noteq> 0" "\<bar>libm0 (89999 / 1000)\<bar> \<le> 1"
    by (simp_all add: libm0_near_pole)
  from radius_lng_of_Fin [of 1000 libm0 "89999 / 1000"] r c
  have "radius_lng_of libm0 (Fin (89999 / 1000)) 1000
      = Inr (float_round (real_of_int 1000 / (111000 * \<bar>libm0 (89999 / 1000)\<bar>)))"
    by auto
  moreover have "real_of_int 1000 / (111000 * \<bar>libm0 (89999 / 1000)\<bar>) = near_pole_span"
    by (simp add: libm0_near_pole near_pole_span_def)
  moreover have "float_round near_pole_span = Fin near_pole_span"
    using near_pole_span_bounds by (intro float_round_small) simp
  ultimately show ?thesis by simp
qed

lemma near_pole_position:
  "float_add (Fin (89999 / 1000)) (float_mul (Fin (- 1)) (Fin (1 / 111))) = Fin (89999 / 1000 - 1 / 111)"
  "float_add (Fin 0) (float_mul (Fin (- 1)) (Fin near_pole_span)) = Fin (- near_pole_span)"
proof -
  have a: "float_round (- (1 / 111)) = Fin (- (1 / 111))"
    by (rule float_round_small) simp
  have b: "float_round (89999 / 1000 - 1 / 111) = Fin (89999 / 1000 - 1 / 111)"
    by (rule float_round_small) simp
  have c: "float_round (- near_pole_span) = Fin (- near_pole_span)"
    using near_pole_span_bounds by (intro float_round_small) simp
  show "float_add (Fin (89999 / 1000)) (float_mul (Fin (- 1)) (Fin (1 / 111))) = Fin (89999 / 1000 - 1 / 111)"
    using a b by simp
  show "float_add (Fin 0) (float_mul (Fin (- 1)) (Fin near_pole_span)) = Fin (- near_pole_span)"
    using c by simp
qed

lemma generate_near_pole:
  "generate_mock_atms libm0 (Fin (89999 / 1000)) (Fin 0) 1000 n (sconst 0)
     = Inr (replicate (nat n) (atm0 (Fin (89999 / 1000 - 1 / 111)) (Fin (- near_pole_span))),
            sconst 0)"
  using generate_sconst [OF radius_lat_of_1000 radius_lng_of_near_pole, of "Fin 0" n]
  by (simp only: near_pole_position)

subsection \<open>What a request leaves in the table\<close>

text \<open>Finite centres, a radius in range and a span in range: no coordinate is NaN.\<close>

lemma generate_mock_atms_finite:
  assumes "\<bar>real_of_int radius\<bar> < overflow_at" and "libm x \<noteq> 0"
    and "\<bar>real_of_int radius / (111000 * \<bar>libm x\<bar>)\<bar> < overflow_at"
  shows "\<exists>atm_data g'. generate_mock_atms libm (Fin x) (Fin y) radius count g = Inr (atm_data, g')
    \<and> length atm_data = nat count \<and> \<not> list_ex null_column atm_data"
proof -
  from radius_lng_of_Fin [of radius libm x] assms
  obtain q where rg: "radius_lng_of libm (Fin x) radius = Inr (Fin q)" by blast
  note rl = radius_lat_of_Inr [OF assms(1)]
  from generate_mock_atms_spans [OF rl rg, of "Fin y" count g]
  obtain atm_data g' where g:
    "generate_mock_atms libm (Fin x) (Fin y) radius count g = Inr (atm_data, g')"
    "length atm_data = nat count"
    "\<forall>atm \<in> set atm_data. \<exists>h r.
        mock_atm_body (Fin x) (Fin y) (Fin (real_of_int radius / 111000)) (Fin q) h = Inr (atm, r)"
    by blast
  have "\<not> null_column atm" if "atm \<in> set atm_data" for atm
    using g(3) that mock_atm_body_not_null by blast
  then have "\<not> list_ex null_column atm_data" by (simp add: list_ex_iff)
  with g(1,2) show ?thesis by blast
qed

text \<open>A miss that returns rows has replaced the table by the batch of its own generation.\<close>

lemma get_atms_try_miss_Inr:
  assumes "filter (fetched_since (shd (clock w) - minutes 15)) table = []"
    and "get_atms_try w a table = (Inr atms, table')"
  shows "atms = table' \<and> (\<exists>lat lng radius atm_data g'.
      float_arg a ''lat'' 0 = Inr lat
      \<and> float_arg a ''lng'' 0 = Inr lng
      \<and> int_arg a ''radius'' DEFAULT_RADIUS = Inr radius
      \<and> generate_mock_atms (cos_radians w) lat lng radius (num_atms_of w) (stl (draws w))
          = Inr (atm_data, g')
      \<and> length atm_data = nat (num_atms_of w)
      \<and> batch_of atm_data (stl (clock w)) table')"
proof -
  have p: "\<not> (float_arg a ''lat'' 0 = Inl e
    \<or> float_arg a ''lng'' 0 = Inl e
    \<or> int_arg a ''radius'' DEFAULT_RADIUS = Inl e)" for e
    using get_atms_try_unparsed [of a e w table] assms(2) by auto
  obtain lat where 1: "float_arg a ''lat'' 0 = Inr lat"
    using p by (cases "float_arg a ''lat'' 0") auto
  obtain lng where 2: "float_arg a ''lng'' 0 = Inr lng"
    using p by (cases "float_arg a ''lng'' 0") auto
  obtain radius where 3: "int_arg a ''radius'' DEFAULT_RADIUS = Inr radius"
    using p by (cases "int_arg a ''radius'' DEFAULT_RADIUS") auto
  let ?gen = "generate_mock_atms (cos_radians w) lat lng radius (num_atms_of w) (stl (draws w))"
  obtain atm_data g' where g: "?gen = Inr (atm_data, g')"
    using get_atms_try_miss_error [OF 1 2 3 assms(1)] assms(2)
    by (cases ?gen) auto
  from get_atms_try_miss_rows [OF 1 2 3 assms(1) g] assms(2)
  have n: "length atm_data = nat (num_atms_of w)"
    and r: "atms = flush [] (fst (session_add_all atm_data (stl (clock w))))"
      "table' = flush [] (fst (session_add_all atm_data (stl (clock w))))"
    by (auto split: if_splits)
  have "batch_of atm_data (stl (clock w)) table'"
    unfolding r(2) by (rule batch_of_new_rows)
  with 1 2 3 g n r show ?thesis by blast
qed

lemma get_atms_try_cases:
  "get_atms_try w a table = (Inl ValueError, table)
   \<or> (\<exists>lat lng radius. float_arg a ''lat'' 0 = Inr lat \<and> float_arg a ''lng'' 0 = Inr lng
        \<and> int_arg a ''radius'' DEFAULT_RADIUS = Inr radius)"
proof (cases "\<exists>e. float_arg a ''lat'' 0 = Inl e \<or> float_arg a ''lng'' 0 = Inl e
              \<or> int_arg a ''radius'' DEFAULT_RADIUS = Inl e")
  case True
  then obtain e where "float_arg a ''lat'' 0 = Inl e \<or> float_arg a ''lng'' 0 = Inl e
              \<or> int_arg a ''radius'' DEFAULT_RADIUS = Inl e"
    by blast
  from get_atms_try_unparsed [OF this] show ?thesis by blast
next
  case False
  obtain lat where "float_arg a ''lat'' 0 = Inr lat"
    using False by (cases "float_arg a ''lat'' 0") auto
  moreover obtain lng where "float_arg a ''lng'' 0 = Inr lng"
    using False by (cases "float_arg a ''lng'' 0") auto
  moreover obtain radius where "int_arg a ''radius'' DEFAULT_RADIUS = Inr radius"
    using False by (cases "int_arg a ''radius'' DEFAULT_RADIUS") auto
  ultimately show ?thesis by blast
qed

lemma table_after_request:
  "snd (get_atms_try w a table) = table \<or> snd (get_atms_try w a table) = []
     \<or> one_generation (snd (get_atms_try w a table))"
proof (cases "filter (fetched_since (shd (clock w) - minutes 15)) table = []")
  case False
  from get_atms_try_cases [of w a table] show ?thesis
  proof (elim disjE conjE exE)
    assume "get_atms_try w a table = (Inl ValueError, table)"
    then show ?thesis by simp
  next
    fix lat lng radius
    assume "float_arg a ''lat'' 0 = Inr lat" "float_arg a ''lng'' 0 = Inr lng"
      "int_arg a ''radius'' DEFAULT_RADIUS = Inr radius"
    from get_atms_try_hit [OF this False] show ?thesis by simp
  qed
next
  case True
  obtain res table' where t: "get_atms_try w a table = (res, table')"
    by (cases "get_atms_try w a table")
  show ?thesis
  proof (cases res)
    case (Inr atms)
    from get_atms_try_miss_Inr [OF True t [unfolded Inr]]
    have "one_generation table'" unfolding one_generation_def by blast
    with t show ?thesis by simp
  next
    case (Inl e)
    from get_atms_try_cases [of w a table] show ?thesis
    proof (elim disjE conjE exE)
      assume "get_atms_try w a table = (Inl ValueError, table)"
      then show ?thesis by simp
    next
      fix lat lng radius
      assume p: "float_arg a ''lat'' 0 = Inr lat" "float_arg a ''lng'' 0 = Inr lng"
        "int_arg a ''radius'' DEFAULT_RADIUS = Inr radius"
      let ?gen = "generate_mock_atms (cos_radians w) lat lng radius (num_atms_of w) (stl (draws w))"
      show ?thesis
      proof (cases ?gen)
        case e: (Inl e')
        from get_atms_try_miss_error [OF p True e] show ?thesis by simp
      next
        case (Inr r)
        obtain atm_data g' where "r = (atm_data, g')" by (cases r)
        with Inr have "?gen = Inr (atm_data, g')" by simp
        from get_atms_try_miss_rows [OF p True this] t Inl show ?thesis
          by (auto split: if_splits)
      qed
    qed
  qed
qed

lemma reachable_one_generation:
  "reachable table \<Longrightarrow> table = [] \<or> one_generation table"
proof (induction rule: reachable.induct)
  case empty
  show ?case by simp
next
  case (request table w a)
  with table_after_request [of w a table] show ?case by (auto simp: snd_get_atms)
qed

text \<open>The primary keys of a table that requests produced are 1, 2, ..., at most 15.\<close>

lemma reachable_ids:
  assumes "reachable table"
  shows "map atm_id table = [1..<Suc (length table)] \<and> length table \<le> 15"
proof -
  from reachable_one_generation [OF assms] show ?thesis
  proof
    assume "table = []"
    then show ?thesis by simp
  next
    assume "one_generation table"
    then obtain w atm_data where b: "length atm_data = nat (num_atms_of w)"
      "batch_of atm_data (stl (clock w)) table"
      unfolding one_generation_def by blast
    have "nat (num_atms_of w) \<le> 15" using num_atms_range [of w] by linarith
    with length_batch_of [OF b(2)] b(1)
    have "length table = length atm_data" "length table \<le> 15" by simp_all
    with b(2) show ?thesis by (simp add: batch_of_def del: upt_Suc)
  qed
qed

subsection \<open>The detail route\<close>

lemma query_get_Some:
  assumes "distinct (map atm_id table)" and "r \<in> set table" and "atm_id r < 2 ^ 63"
  shows "query_get table (atm_id r) = Inr (Some r)"
proof -
  have "find (\<lambda>a. atm_id a = atm_id r) table = Some r"
    using assms(1,2) by (induction table) (auto simp: image_iff)
  with assms(3) show ?thesis by (simp add: query_get_def)
qed

lemma query_get_None:
  assumes "\<forall>r \<in> set table. atm_id r \<noteq> i" and "i < 2 ^ 63"
  shows "query_get table i = Inr None"
  using assms by (simp add: query_get_def find_None_iff)

lemma query_get_overflow: "2 ^ 63 \<le> i \<Longrightarrow> query_get table i = Inl OverflowError"
  by (simp add: query_get_def)

lemma reachable_keys:
  assumes "reachable table"
  shows "distinct (map atm_id table) \<and> (\<forall>r \<in> set table. atm_id r < 2 ^ 63)"
proof -
  from reachable_ids [OF assms]
  have m: "map atm_id table = [1..<Suc (length table)]" and l: "length table \<le> 15" by simp_all
  have d: "distinct (map atm_id table)" unfolding m by simp
  have "atm_id r < 2 ^ 63" if "r \<in> set table" for r
  proof -
    from that have "atm_id r \<in> set (map atm_id table)" by simp
    then have "atm_id r \<le> length table" unfolding m by (simp del: upt_Suc)
    with l have "atm_id r \<le> 15" by simp
    moreover have "(15::nat) < 2 ^ 63" by simp
    ultimately show ?thesis by linarith
  qed
  with d show ?thesis by blast
qed

section \<open>The generator\<close>

lemma radius_lng_of_zero:
  assumes "\<bar>real_of_int radius\<bar> < overflow_at" and "libm x = 0"
  shows "radius_lng_of libm (Fin x) radius = Inl ZeroDivisionError"
proof -
  have "float_of_int 111000 = Inr (Fin 111000)"
    using overflow_at_large by (simp add: float_of_int_def)
  moreover have "float_round 0 = Fin 0" by (rule float_round_small) simp
  ultimately show ?thesis
    using float_of_int_Inr [OF assms(1)] assms(2)
    by (simp add: radius_lng_of_def cos_of_radians_def try_bind_def int_times_float_def
        int_over_float_def float_abs_def)
qed

text \<open>
  C6. Every dictionary that \<^verbatim>\<open>generate_mock_atms\<close> returns has between 2 and 4 services,
  no service twice, and each of them from the list of six services.
\<close>

theorem services_two_to_four_distinct:
  assumes "generate_mock_atms libm lat lng radius count g = Inr (atms, g')" and "atm \<in> set atms"
  shows "2 \<le> length (atm_services atm) \<and> length (atm_services atm) \<le> 4
    \<and> distinct (atm_services atm) \<and> set (atm_services atm) \<subseteq> set all_services
    \<and> length all_services = 6"
proof -
  from generate_mock_atms_Inr [OF assms(1)] assms(2) obtain rl rg h r where
    "mock_atm_body lat lng rl rg h = Inr (atm, r)"
    by blast
  from mock_atm_body_props [OF this] all_services_distinct show ?thesis by simp
qed

theorem services_two_to_four_distinct_witness:
  "generate_mock_atms libm0 (Fin 0) (Fin 0) 1000 1 (sconst 0)
     = Inr ([atm0 (Fin (- (1 / 111))) (Fin (- (1 / 111)))], sconst 0)
   \<and> atm_services (atm0 (Fin (- (1 / 111))) (Fin (- (1 / 111))))
       = [''Cash Withdrawal'', ''Bill Payment'']
   \<and> 2 \<le> length (atm_services (atm0 (Fin (- (1 / 111))) (Fin (- (1 / 111)))))
   \<and> length (atm_services (atm0 (Fin (- (1 / 111))) (Fin (- (1 / 111))))) \<le> 4
   \<and> distinct (atm_services (atm0 (Fin (- (1 / 111))) (Fin (- (1 / 111)))))
   \<and> set (atm_services (atm0 (Fin (- (1 / 111))) (Fin (- (1 / 111))))) \<subseteq> set all_services"
proof -
  let ?atm = "atm0 (Fin (- (1 / 111))) (Fin (- (1 / 111)))"
  have g: "generate_mock_atms libm0 (Fin 0) (Fin 0) 1000 1 (sconst 0) = Inr ([?atm], sconst 0)"
    using generate_zero [of 1] by simp
  have m: "?atm \<in> set [?atm]" by simp
  from services_two_to_four_distinct [OF g m] g show ?thesis
    by (simp add: atm0_def)
qed

text \<open>
  C10. As stated the claim fails: the radius is not validated, and one too large for
  a float makes the first division raise OverflowError, at a latitude whose cosine
  is 1. The radius below is the integer the route reads from 1 followed by 400 zeros.
\<close>

theorem generate_overflow_counterexample:
  "libm0 0 = 1
   \<and> py_int (power_of_ten 400) = Inr (10 ^ 400)
   \<and> generate_mock_atms libm0 (Fin 0) (Fin 0) (10 ^ 400) 5 (sconst 0) = Inl OverflowError"
  using libm0_0 py_int_power_of_ten [of 400] generate_overflow [of libm0 "Fin 0" "Fin 0" 5 "sconst 0"]
  by (simp only: simp_thms)

text \<open>
  C10, amended. \<^verbatim>\<open>generate_mock_atms\<close> returns a list exactly when the latitude is not
  an infinity, the magnitude of the radius is below \<open>2^1024 - 2^970\<close> and the cosine
  computed for a finite latitude is not zero; otherwise it raises. The list it
  returns has \<open>max count 0\<close> dictionaries; each has a bank name followed by \<^verbatim>\<open>ATM\<close>,
  an address of a street number from 1 to 999 and a street name, and services.
\<close>

theorem generate_mock_atms_total:
  "((\<exists>atms g'. generate_mock_atms libm lat lng radius count g = Inr (atms, g'))
      \<longleftrightarrow> lat \<noteq> PInf \<and> lat \<noteq> NInf \<and> \<bar>real_of_int radius\<bar> < overflow_at
          \<and> (\<forall>x. lat = Fin x \<longrightarrow> libm x \<noteq> 0))
   \<and> (\<forall>atms g'. generate_mock_atms libm lat lng radius count g = Inr (atms, g') \<longrightarrow>
         length atms = nat count
         \<and> (\<forall>atm \<in> set atms.
              (\<exists>bank. bank \<in> set bank_names \<and> atm_name atm = bank @ '' ATM'')
              \<and> (\<exists>number street. 1 \<le> number \<and> number \<le> 999 \<and> street \<in> set street_names
                    \<and> atm_address atm = str_int number @ '' '' @ street)
              \<and> atm_services atm \<noteq> []))"
proof -
  let ?gen = "generate_mock_atms libm lat lng radius count g"
  let ?ok = "lat \<noteq> PInf \<and> lat \<noteq> NInf \<and> \<bar>real_of_int radius\<bar> < overflow_at
          \<and> (\<forall>x. lat = Fin x \<longrightarrow> libm x \<noteq> 0)"
  have returns: "\<exists>atms g'. ?gen = Inr (atms, g')" if ?ok
  proof -
    from that spans_computed [of lat radius libm]
    obtain rl rg where "radius_lat_of radius = Inr rl" "radius_lng_of libm lat radius = Inr rg"
      by blast
    from generate_mock_atms_spans [OF this, of lng count g] show ?thesis by blast
  qed
  have raises: ?ok if r: "?gen = Inr (atms, g')" for atms g'
  proof -
    from generate_mock_atms_Inr [OF r] obtain rl rg where
      s: "radius_lat_of radius = Inr rl" "radius_lng_of libm lat radius = Inr rg"
      by blast
    have 1: "\<bar>real_of_int radius\<bar> < overflow_at"
    proof (rule ccontr)
      assume "\<not> \<bar>real_of_int radius\<bar> < overflow_at"
      then have "overflow_at \<le> \<bar>real_of_int radius\<bar>" by simp
      from generate_mock_atms_overflow [OF this, of libm lat lng count g] r show False by simp
    qed
    have 2: "lat \<noteq> PInf \<and> lat \<noteq> NInf"
      using radius_lng_of_infinite [of lat libm radius] s(2) by auto
    have 3: "libm x \<noteq> 0" if "lat = Fin x" for x
      using radius_lng_of_zero [OF 1, of libm x] s(2) that by auto
    from 1 2 3 show ?thesis by blast
  qed
  have fields: "length atms = nat count
         \<and> (\<forall>atm \<in> set atms.
              (\<exists>bank. bank \<in> set bank_names \<and> atm_name atm = bank @ '' ATM'')
              \<and> (\<exists>number street. 1 \<le> number \<and> number \<le> 999 \<and> street \<in> set street_names
                    \<and> atm_address atm = str_int number @ '' '' @ street)
              \<and> atm_services atm \<noteq> [])"
    if r: "?gen = Inr (atms, g')" for atms g'
  proof -
    from generate_mock_atms_Inr [OF r] obtain rl rg where
      l: "length atms = nat count"
      and b: "\<forall>atm \<in> set atms. \<exists>h r. mock_atm_body lat lng rl rg h = Inr (atm, r)"
      by blast
    have "(\<exists>bank. bank \<in> set bank_names \<and> atm_name atm = bank @ '' ATM'')
          \<and> (\<exists>number street. 1 \<le> number \<and> number \<le> 999 \<and> street \<in> set street_names
                \<and> atm_address atm = str_int number @ '' '' @ street)
          \<and> atm_services atm \<noteq> []" if "atm \<in> set atms" for atm
    proof -
      from b that obtain h r where "mock_atm_body lat lng rl rg h = Inr (atm, r)" by blast
      from mock_atm_body_props [OF this] show ?thesis by auto
    qed
    with l show ?thesis by blast
  qed
  from returns raises fields show ?thesis by blast
qed

theorem generate_mock_atms_total_witness:
  "libm0 0 \<noteq> 0
   \<and> \<bar>real_of_int 1000\<bar> < overflow_at
   \<and> generate_mock_atms libm0 (Fin 0) (Fin 0) 1000 2 (sconst 0)
       = Inr ([atm0 (Fin (- (1 / 111))) (Fin (- (1 / 111))),
               atm0 (Fin (- (1 / 111))) (Fin (- (1 / 111)))], sconst 0)
   \<and> length [atm0 (Fin (- (1 / 111))) (Fin (- (1 / 111))),
              atm0 (Fin (- (1 / 111))) (Fin (- (1 / 111)))] = nat 2
   \<and> atm_name (atm0 (Fin (- (1 / 111))) (Fin (- (1 / 111)))) = ''United Bank ATM''
   \<and> atm_address (atm0 (Fin (- (1 / 111))) (Fin (- (1 / 111)))) = ''1 Main St''
   \<and> atm_services (atm0 (Fin (- (1 / 111))) (Fin (- (1 / 111)))) \<noteq> []
   \<and> (\<exists>atms g'. generate_mock_atms libm0 (Fin 0) (Fin 0) 1000 2 (sconst 0) = Inr (atms, g'))"
proof -
  let ?atm = "atm0 (Fin (- (1 / 111))) (Fin (- (1 / 111)))"
  have c: "libm0 0 \<noteq> 0" by (simp add: libm0_0)
  have r: "\<bar>real_of_int 1000\<bar> < overflow_at" using overflow_at_large by simp
  have g: "generate_mock_atms libm0 (Fin 0) (Fin 0) 1000 2 (sconst 0) = Inr ([?atm, ?atm], sconst 0)"
    using generate_zero [of 2] by (simp add: numeral_2_eq_2)
  note t = generate_mock_atms_total [of libm0 "Fin 0" "Fin 0" 1000 2 "sconst 0"]
  from t c r have e: "\<exists>atms g'. generate_mock_atms libm0 (Fin 0) (Fin 0) 1000 2 (sconst 0) = Inr (atms, g')"
    by simp
  from t g have "length [?atm, ?atm] = nat 2 \<and> atm_services ?atm \<noteq> []"
    by simp
  with c r g e show ?thesis by (simp add: atm0_def)
qed

section \<open>Latitudes near the poles\<close>

lemma snd_pole_request:
  "batch_of (replicate 5 (atm0 (Fin (90 - 10 ^ 300 / 111000)) NInf)) (stl (clock (world_at 0)))
     (snd (get_atms (world_at 0) [''lat'' \<mapsto> ''90'', ''radius'' \<mapsto> power_of_ten 300] []))
   \<and> fst (get_atms (world_at 0) [''lat'' \<mapsto> ''90'', ''radius'' \<mapsto> power_of_ten 300] [])
      = Response 200 (AtmsBody (map to_dict
          (snd (get_atms (world_at 0) [''lat'' \<mapsto> ''90'', ''radius'' \<mapsto> power_of_ten 300] []))))"
proof -
  from pole_request_try obtain rows where
    t: "get_atms_try (world_at 0) [''lat'' \<mapsto> ''90'', ''radius'' \<mapsto> power_of_ten 300] []
      = (Inr rows, rows)"
    and b: "batch_of (replicate 5 (atm0 (Fin (90 - 10 ^ 300 / 111000)) NInf))
        (stl (clock (world_at 0))) rows"
    by blast
  from get_atms_Inr [OF t] b show ?thesis by simp
qed

text \<open>
  C4. As stated the claim fails: the program has no such error and tests no epsilon.
  At the latitude 89.999 the generator returns its dictionaries, with a longitude
  span of about 516 degrees. At the latitude 90, where the cosine computed is
  \<open>6.1e-17\<close> and not zero, and with a radius of 1 followed by 300 zeros, the span is
  an infinity: the longitudes generated are infinite, the request stores the five
  rows with them and answers 200.
\<close>

theorem near_pole_counterexample:
  "generate_mock_atms libm0 (Fin (89999 / 1000)) (Fin 0) 1000 5 (sconst 0)
     = Inr (replicate 5 (atm0 (Fin (89999 / 1000 - 1 / 111)) (Fin (- near_pole_span))), sconst 0)
   \<and> 516 < near_pole_span \<and> near_pole_span < 517
   \<and> generate_mock_atms libm0 (Fin 90) (Fin 0) (10 ^ 300) 5 (sconst 0)
     = Inr (replicate 5 (atm0 (Fin (90 - 10 ^ 300 / 111000)) NInf), sconst 0)
   \<and> fst (get_atms (world_at 0) [''lat'' \<mapsto> ''90'', ''radius'' \<mapsto> power_of_ten 300] [])
      = Response 200 (AtmsBody (map to_dict
          (snd (get_atms (world_at 0) [''lat'' \<mapsto> ''90'', ''radius'' \<mapsto> power_of_ten 300] []))))
   \<and> map atm_lng
        (snd (get_atms (world_at 0) [''lat'' \<mapsto> ''90'', ''radius'' \<mapsto> power_of_ten 300] []))
      = [NInf, NInf, NInf, NInf, NInf]"
proof -
  have "map atm_lng
        (snd (get_atms (world_at 0) [''lat'' \<mapsto> ''90'', ''radius'' \<mapsto> power_of_ten 300] []))
      = map atm_lng (replicate 5 (atm0 (Fin (90 - 10 ^ 300 / 111000)) NInf))"
    using snd_pole_request by (intro atm_lng_batch_of) blast
  also have "\<dots> = [NInf, NInf, NInf, NInf, NInf]"
    unfolding replicate5 by (simp add: atm0_def)
  finally show ?thesis
    using generate_near_pole [of 5] generate_pole [of 5] near_pole_span_bounds snd_pole_request
    by simp
qed

text \<open>
  C4, amended. For every finite latitude whose computed cosine is not zero, however
  small, and every radius of magnitude below \<open>2^1024 - 2^970\<close>, the generator raises
  nothing and returns its \<open>max count 0\<close> dictionaries. When the longitude span
  \<open>radius / (111000 * |cos|)\<close> is out of the range of a double, the longitude of
  every dictionary returned is an infinity or NaN.
\<close>

theorem no_geometry_guard:
  assumes "\<bar>real_of_int radius\<bar> < overflow_at" and "libm x \<noteq> 0"
  shows "\<exists>atms g'. generate_mock_atms libm (Fin x) lng radius count g = Inr (atms, g')
    \<and> length atms = nat count
    \<and> (\<bar>libm x\<bar> \<le> 1 \<and> overflow_at \<le> \<bar>real_of_int radius / (111000 * \<bar>libm x\<bar>)\<bar> \<longrightarrow>
         (\<forall>atm \<in> set atms. atm_lng atm = PInf \<or> atm_lng atm = NInf \<or> atm_lng atm = NaN))"
proof -
  let ?q = "real_of_int radius / (111000 * \<bar>libm x\<bar>)"
  from radius_lng_of_Fin [of radius libm x] assms
  obtain rg where rg: "radius_lng_of libm (Fin x) radius = Inr rg"
    and v: "\<bar>libm x\<bar> \<le> 1 \<longrightarrow> rg = float_round ?q"
    by blast
  note rl = radius_lat_of_Inr [OF assms(1)]
  from generate_mock_atms_spans [OF rl rg, of lng count g]
  obtain atms g' where g: "generate_mock_atms libm (Fin x) lng radius count g = Inr (atms, g')"
    "length atms = nat count"
    "\<forall>atm \<in> set atms. \<exists>h r.
        mock_atm_body (Fin x) lng (Fin (real_of_int radius / 111000)) rg h = Inr (atm, r)"
    by blast
  have "atm_lng atm = PInf \<or> atm_lng atm = NInf \<or> atm_lng atm = NaN"
    if c: "\<bar>libm x\<bar> \<le> 1" and o: "overflow_at \<le> \<bar>?q\<bar>" and m: "atm \<in> set atms" for atm
  proof -
    have "rg = float_round ?q" using v c by simp
    moreover have "float_round ?q = PInf \<or> float_round ?q = NInf"
    proof (cases "0 \<le> ?q")
      case True
      with o have "overflow_at \<le> ?q" by simp
      then show ?thesis by (simp add: float_round_PInf)
    next
      case False
      with o have "?q \<le> - overflow_at" by simp
      then show ?thesis by (simp add: float_round_NInf)
    qed
    ultimately have i: "rg = PInf \<or> rg = NInf \<or> rg = NaN" by auto
    from g(3) m obtain h r where
      "mock_atm_body (Fin x) lng (Fin (real_of_int radius / 111000)) rg h = Inr (atm, r)"
      by blast
    from mock_atm_body_lng_not_Fin [OF this i] show ?thesis .
  qed
  with g(1,2) show ?thesis by blast
qed

theorem no_geometry_guard_witness:
  "\<bar>real_of_int (10 ^ 300)\<bar> < overflow_at
   \<and> libm0 90 \<noteq> 0
   \<and> \<bar>libm0 90\<bar> \<le> 1
   \<and> overflow_at \<le> \<bar>real_of_int (10 ^ 300) / (111000 * \<bar>libm0 90\<bar>)\<bar>
   \<and> generate_mock_atms libm0 (Fin 90) (Fin 0) (10 ^ 300) 5 (sconst 0)
     = Inr (replicate 5 (atm0 (Fin (90 - 10 ^ 300 / 111000)) NInf), sconst 0)
   \<and> length (replicate 5 (atm0 (Fin (90 - 10 ^ 300 / 111000)) NInf)) = nat 5
   \<and> list_all (\<lambda>atm. atm_lng atm = PInf \<or> atm_lng atm = NInf \<or> atm_lng atm = NaN)
        (replicate 5 (atm0 (Fin (90 - 10 ^ 300 / 111000)) NInf))"
proof -
  have r: "\<bar>real_of_int (10 ^ 300)\<bar> < overflow_at"
    using overflow_at_large by simp
  have c: "libm0 90 \<noteq> 0" "\<bar>libm0 90\<bar> \<le> 1"
    by (simp_all add: libm0_90)
  have "overflow_at \<le> real_of_int (10 ^ 300) / (111000 * \<bar>libm0 90\<bar>)"
    using overflow_at_less by (simp add: libm0_90 field_simps)
  then have o: "overflow_at \<le> \<bar>real_of_int (10 ^ 300) / (111000 * \<bar>libm0 90\<bar>)\<bar>"
    by linarith
  have g: "generate_mock_atms libm0 (Fin 90) (Fin 0) (10 ^ 300) 5 (sconst 0)
     = Inr (replicate 5 (atm0 (Fin (90 - 10 ^ 300 / 111000)) NInf), sconst 0)"
    using generate_pole [of 5] by simp
  from no_geometry_guard [of "10 ^ 300" libm0 90 "Fin 0" 5 "sconst 0"] r c o g
  have "length (replicate 5 (atm0 (Fin (90 - 10 ^ 300 / 111000)) NInf)) = nat 5
    \<and> (\<forall>atm \<in> set (replicate 5 (atm0 (Fin (90 - 10 ^ 300 / 111000)) NInf)).
          atm_lng atm = PInf \<or> atm_lng atm = NInf \<or> atm_lng atm = NaN)"
    by auto
  then have "length (replicate 5 (atm0 (Fin (90 - 10 ^ 300 / 111000)) NInf)) = nat 5
    \<and> list_all (\<lambda>atm. atm_lng atm = PInf \<or> atm_lng atm = NInf \<or> atm_lng atm = NaN)
        (replicate 5 (atm0 (Fin (90 - 10 ^ 300 / 111000)) NInf))"
    by (simp add: list_all_iff)
  with r c o g show ?thesis by blast
qed

section \<open>Requests and the cache\<close>

text \<open>
  C1. As stated the claim fails: a request that finds a fresh row returns the fresh
  rows only. The first request below writes five rows, at the instants 1 to 5; the
  second comes 15 minutes after the instant 3 and is answered with the rows 3 to 5,
  while the table still holds all five.
\<close>

theorem cache_hit_whole_table_counterexample:
  "get_atms (world_at 0) Map.empty []
     = (Response 200 (AtmsBody (map to_dict batch0)), batch0)
   \<and> filter (fetched_since (shd (clock (world_at (minutes 15 + 3))) - minutes 15))
        batch0 \<noteq> []
   \<and> get_atms (world_at (minutes 15 + 3)) Map.empty batch0
     = (Response 200 (AtmsBody (map to_dict [row0 3, row0 4, row0 5])), batch0)
   \<and> map to_dict [row0 3, row0 4, row0 5] \<noteq> map to_dict batch0"
proof -
  have "get_atms_try (world_at (minutes 15 + 3)) Map.empty batch0
      = (Inr [row0 3, row0 4, row0 5], batch0)"
    using get_atms_try_hit [of Map.empty "Fin 0" "Fin 0" DEFAULT_RADIUS
        "world_at (minutes 15 + 3)" batch0]
    by (simp add: float_arg_empty int_arg_empty filter_batch0)
  then have "get_atms (world_at (minutes 15 + 3)) Map.empty batch0
     = (Response 200 (AtmsBody (map to_dict [row0 3, row0 4, row0 5])), batch0)"
    by (rule get_atms_Inr)
  with first_request later_rows_differ show ?thesis
    by (simp add: filter_batch0)
qed

text \<open>
  C1, amended. A request whose parameters convert and that finds a row fetched within
  the last 15 minutes returns exactly the rows fetched within the last 15 minutes
  (the whole table when every row is that fresh) and leaves the table as it is; the
  answer does not depend on the values of lat, lng and radius.
\<close>

theorem cache_hit_returns_fresh_rows:
  assumes "float_arg a ''lat'' 0 = Inr lat" and "float_arg a ''lng'' 0 = Inr lng"
    and "int_arg a ''radius'' DEFAULT_RADIUS = Inr radius"
    and "filter (fetched_since (shd (clock w) - minutes 15)) table \<noteq> []"
  shows "get_atms w a table =
      (Response 200
        (AtmsBody (map to_dict (filter (fetched_since (shd (clock w) - minutes 15)) table))),
       table)
    \<and> ((\<forall>r \<in> set table. fetched_since (shd (clock w) - minutes 15) r) \<longrightarrow>
         get_atms w a table = (Response 200 (AtmsBody (map to_dict table)), table))"
proof -
  have "get_atms w a table =
      (Response 200
        (AtmsBody (map to_dict (filter (fetched_since (shd (clock w) - minutes 15)) table))),
       table)"
    using get_atms_try_hit [OF assms] by (rule get_atms_Inr)
  moreover have "filter (fetched_since (shd (clock w) - minutes 15)) table = table"
    if "\<forall>r \<in> set table. fetched_since (shd (clock w) - minutes 15) r"
    using that by (simp add: filter_id_conv)
  ultimately show ?thesis by auto
qed

theorem cache_hit_returns_fresh_rows_witness:
  "float_arg [''lat'' \<mapsto> ''40.7128'', ''lng'' \<mapsto> ''-74.0060'', ''radius'' \<mapsto> ''500''] ''lat'' 0
     = Inr (Fin (407128 / 10000))
   \<and> float_arg [''lat'' \<mapsto> ''40.7128'', ''lng'' \<mapsto> ''-74.0060'', ''radius'' \<mapsto> ''500''] ''lng'' 0
     = Inr (Fin (- (740060 / 10000)))
   \<and> int_arg [''lat'' \<mapsto> ''40.7128'', ''lng'' \<mapsto> ''-74.0060'', ''radius'' \<mapsto> ''500''] ''radius''
       DEFAULT_RADIUS = Inr 500
   \<and> filter (fetched_since (shd (clock (world_at (minutes 15 + 1))) - minutes 15))
        batch0 = batch0
   \<and> batch0 \<noteq> []
   \<and> get_atms (world_at (minutes 15 + 1))
        [''lat'' \<mapsto> ''40.7128'', ''lng'' \<mapsto> ''-74.0060'', ''radius'' \<mapsto> ''500''] batch0
      = (Response 200 (AtmsBody (map to_dict batch0)), batch0)"
proof -
  let ?a = "[''lat'' \<mapsto> ''40.7128'', ''lng'' \<mapsto> ''-74.0060'', ''radius'' \<mapsto> ''500'']"
  let ?w = "world_at (minutes 15 + 1)"
  have 1: "float_arg ?a ''lat'' 0 = Inr (Fin (407128 / 10000))"
    by (simp add: float_arg_def py_float_lat)
  have 2: "float_arg ?a ''lng'' 0 = Inr (Fin (- (740060 / 10000)))"
    by (simp add: float_arg_def py_float_lng)
  have 3: "int_arg ?a ''radius'' DEFAULT_RADIUS = Inr 500"
    by (simp add: int_arg_def py_int_500)
  note 4 = filter_batch0_fresh
  note 5 = batch0_not_Nil
  have 6: "filter (fetched_since (shd (clock ?w) - minutes 15)) batch0 \<noteq> []"
    using 4 5 by simp
  from cache_hit_returns_fresh_rows [OF 1 2 3 6] 4
  have "get_atms ?w ?a batch0 = (Response 200 (AtmsBody (map to_dict batch0)), batch0)"
    by simp
  with 1 2 3 4 5 show ?thesis by simp
qed

section \<open>Parameters\<close>

lemma get_atms_try_same_args:
  assumes "float_arg a ''lat'' 0 = float_arg b ''lat'' 0"
    and "float_arg a ''lng'' 0 = float_arg b ''lng'' 0"
    and "int_arg a ''radius'' DEFAULT_RADIUS = int_arg b ''radius'' DEFAULT_RADIUS"
  shows "get_atms_try w a table = get_atms_try w b table"
  unfolding get_atms_try_def assms by (rule refl)

text \<open>
  C8. As stated the claim fails for a malformed parameter: \<^verbatim>\<open>float('abc')\<close> raises
  ValueError, and the request is answered 500 with the message of the exception,
  where the request without the parameter is answered 200.
\<close>

theorem malformed_lat_counterexample:
  "get_atms (world_at 0) [''lat'' \<mapsto> ''abc''] []
     = (Response 500 (ErrorBody (Str ValueError)), [])
   \<and> get_atms (world_at 0) Map.empty []
     = (Response 200 (AtmsBody (map to_dict batch0)), batch0)"
proof -
  have "float_arg [''lat'' \<mapsto> ''abc''] ''lat'' 0 = Inl ValueError"
    by (simp add: float_arg_def py_float_abc)
  then have "get_atms_try (world_at 0) [''lat'' \<mapsto> ''abc''] [] = (Inl ValueError, [])"
    by (intro get_atms_try_unparsed [where e = ValueError]) simp
  from get_atms_Inl [OF this] first_request show ?thesis by simp
qed

text \<open>
  C8, amended. A parameter that is missing takes its default: the request is handled
  as the same request with \<^verbatim>\<open>lat=0\<close>, \<^verbatim>\<open>lng=0\<close> or \<^verbatim>\<open>radius=1000\<close> written out. A
  parameter that is present and that \<^verbatim>\<open>float\<close> or \<^verbatim>\<open>int\<close> does not convert makes the
  request fail: the answer is 500 with the message of the ValueError, and the table
  is left as it is.
\<close>

theorem missing_defaults_malformed_fails:
  "(a ''lat'' = None \<longrightarrow> get_atms w a table = get_atms w (a(''lat'' \<mapsto> ''0'')) table)
   \<and> (a ''lng'' = None \<longrightarrow> get_atms w a table = get_atms w (a(''lng'' \<mapsto> ''0'')) table)
   \<and> (a ''radius'' = None \<longrightarrow> get_atms w a table = get_atms w (a(''radius'' \<mapsto> ''1000'')) table)
   \<and> ((\<exists>s. a ''lat'' = Some s \<and> py_float s = Inl ValueError)
        \<or> (\<exists>s. a ''lng'' = Some s \<and> py_float s = Inl ValueError)
        \<or> (\<exists>s. a ''radius'' = Some s \<and> py_int s = Inl ValueError)
      \<longrightarrow> get_atms w a table = (Response 500 (ErrorBody (Str ValueError)), table))"
proof -
  have lat: "get_atms_try w a table = get_atms_try w (a(''lat'' \<mapsto> ''0'')) table"
    if "a ''lat'' = None"
    using that
    by (intro get_atms_try_same_args)
      (simp_all add: float_arg_def int_arg_def py_float_0 float_of_int_0)
  have lng: "get_atms_try w a table = get_atms_try w (a(''lng'' \<mapsto> ''0'')) table"
    if "a ''lng'' = None"
    using that
    by (intro get_atms_try_same_args)
      (simp_all add: float_arg_def int_arg_def py_float_0 float_of_int_0)
  have radius: "get_atms_try w a table = get_atms_try w (a(''radius'' \<mapsto> ''1000'')) table"
    if "a ''radius'' = None"
    using that
    by (intro get_atms_try_same_args)
      (simp_all add: float_arg_def int_arg_def py_int_1000 DEFAULT_RADIUS_def)
  have bad: "get_atms_try w a table = (Inl ValueError, table)"
    if "(\<exists>s. a ''lat'' = Some s \<and> py_float s = Inl ValueError)
        \<or> (\<exists>s. a ''lng'' = Some s \<and> py_float s = Inl ValueError)
        \<or> (\<exists>s. a ''radius'' = Some s \<and> py_int s = Inl ValueError)"
  proof -
    from that have "float_arg a ''lat'' 0 = Inl ValueError
      \<or> float_arg a ''lng'' 0 = Inl ValueError
      \<or> int_arg a ''radius'' DEFAULT_RADIUS = Inl ValueError"
      by (auto simp: float_arg_def int_arg_def)
    then show ?thesis by (rule get_atms_try_unparsed [where e = ValueError])
  qed
  show ?thesis
    using lat lng radius bad by (simp add: get_atms_def)
qed

theorem missing_defaults_malformed_fails_witness:
  "(Map.empty :: args) ''lat'' = None
   \<and> (Map.empty :: args) ''lng'' = None
   \<and> (Map.empty :: args) ''radius'' = None
   \<and> get_atms (world_at 0) [''lat'' \<mapsto> ''0''] []
       = (Response 200 (AtmsBody (map to_dict batch0)), batch0)
   \<and> get_atms (world_at 0) [''lng'' \<mapsto> ''0''] []
       = (Response 200 (AtmsBody (map to_dict batch0)), batch0)
   \<and> get_atms (world_at 0) [''radius'' \<mapsto> ''1000''] []
       = (Response 200 (AtmsBody (map to_dict batch0)), batch0)
   \<and> [''lng'' \<mapsto> ''abc''] ''lng'' = Some ''abc''
   \<and> py_float ''abc'' = Inl ValueError
   \<and> get_atms (world_at 0) [''lng'' \<mapsto> ''abc''] batch0
       = (Response 500 (ErrorBody (Str ValueError)), batch0)"
proof -
  let ?w = "world_at 0"
  have n: "(Map.empty :: args) ''lat'' = None" "(Map.empty :: args) ''lng'' = None"
    "(Map.empty :: args) ''radius'' = None"
    by simp_all
  have s: "[''lng'' \<mapsto> ''abc''] ''lng'' = Some ''abc''" by simp
  note t = missing_defaults_malformed_fails [of Map.empty ?w "[]"]
  note u = missing_defaults_malformed_fails [of "[''lng'' \<mapsto> ''abc'']" ?w batch0]
  have "get_atms ?w [''lng'' \<mapsto> ''abc''] batch0
       = (Response 500 (ErrorBody (Str ValueError)), batch0)"
    using u s py_float_abc by blast
  moreover have "get_atms ?w Map.empty [] = get_atms ?w [''lat'' \<mapsto> ''0''] []"
    using t n(1) by blast
  moreover have "get_atms ?w Map.empty [] = get_atms ?w [''lng'' \<mapsto> ''0''] []"
    using t n(2) by blast
  moreover have "get_atms ?w Map.empty [] = get_atms ?w [''radius'' \<mapsto> ''1000''] []"
    using t n(3) by blast
  ultimately show ?thesis using n s py_float_abc first_request by simp
qed

section \<open>The detail route\<close>

lemma batch0_row2: "row0 2 \<in> set batch0 \<and> atm_id (row0 2) = 2"
  by (simp add: batch0_def row0_def)

text \<open>
  C9. As stated the claim fails on the answer for an id that no row has: the message
  of the 404 is \<^verbatim>\<open>ATM not found\<close>, not \<^verbatim>\<open>not found\<close>, and an id of \<open>2^63\<close> or more is
  answered 500, the database raising OverflowError for it.
\<close>

theorem not_found_body_counterexample:
  "get_atm [] 1 = Response 404 (ErrorBody (Literal ''ATM not found''))
   \<and> get_atm [] 1 \<noteq> Response 404 (ErrorBody (Literal ''not found''))
   \<and> get_atm [] (2 ^ 63) = Response 500 (ErrorBody (Str OverflowError))"
  by (simp add: get_atm_def query_get_def)

text \<open>
  C9, amended. In every table that requests have produced, the detail route answers
  200 with the dictionary of the row of that id, all seven fields of the row, when
  the table has such a row; for an id below \<open>2^63\<close> that no row has it answers 404
  with the body \<^verbatim>\<open>{"error": "ATM not found"}\<close>; for an id of \<open>2^63\<close> or more it answers
  500 with the message of the OverflowError.
\<close>

theorem get_atm_found_or_404:
  assumes "reachable table"
  shows "(\<forall>r \<in> set table. get_atm table (atm_id r) = Response 200 (AtmBody (to_dict r)))
    \<and> ((\<forall>r \<in> set table. atm_id r \<noteq> i) \<and> i < 2 ^ 63 \<longrightarrow>
          get_atm table i = Response 404 (ErrorBody (Literal ''ATM not found'')))
    \<and> (2 ^ 63 \<le> i \<longrightarrow> get_atm table i = Response 500 (ErrorBody (Str OverflowError)))"
proof -
  from reachable_keys [OF assms]
  have d: "distinct (map atm_id table)" and k: "\<forall>r \<in> set table. atm_id r < 2 ^ 63"
    by simp_all
  have "get_atm table (atm_id r) = Response 200 (AtmBody (to_dict r))" if "r \<in> set table" for r
    using query_get_Some [OF d that] k that by (simp add: get_atm_def)
  moreover have "get_atm table i = Response 404 (ErrorBody (Literal ''ATM not found''))"
    if "\<forall>r \<in> set table. atm_id r \<noteq> i" and "i < 2 ^ 63"
    using query_get_None [OF that] by (simp add: get_atm_def)
  moreover have "get_atm table i = Response 500 (ErrorBody (Str OverflowError))"
    if "2 ^ 63 \<le> i"
    using query_get_overflow [OF that, of table] by (simp add: get_atm_def)
  ultimately show ?thesis by blast
qed

theorem get_atm_found_or_404_witness:
  "reachable batch0
   \<and> row0 2 \<in> set batch0
   \<and> atm_id (row0 2) = 2
   \<and> get_atm batch0 2 = Response 200 (AtmBody (to_dict (row0 2)))
   \<and> to_dict (row0 2)
       = \<lparr>dict_id = 2, dict_name = ''United Bank ATM'', dict_lat = Fin (- (1 / 111)),
          dict_lng = Fin (- (1 / 111)), dict_address = ''1 Main St'',
          dict_services = [''Cash Withdrawal'', ''Bill Payment''],
          dict_fetched_at = Some (Isoformat 2)\<rparr>
   \<and> list_all (\<lambda>r. atm_id r \<noteq> 6) batch0
   \<and> get_atm batch0 6 = Response 404 (ErrorBody (Literal ''ATM not found''))
   \<and> get_atm batch0 (2 ^ 63) = Response 500 (ErrorBody (Str OverflowError))"
proof -
  note m = batch0_row2
  have a: "\<forall>r \<in> set batch0. atm_id r \<noteq> 6" by (simp add: batch0_def row0_def)
  have s: "(6::nat) < 2 ^ 63" by simp
  from get_atm_found_or_404 [OF reachable_batch0, of 6] m a s
  have 1: "get_atm batch0 2 = Response 200 (AtmBody (to_dict (row0 2)))"
    and 2: "get_atm batch0 6 = Response 404 (ErrorBody (Literal ''ATM not found''))"
    by auto
  from get_atm_found_or_404 [OF reachable_batch0, of "2 ^ 63"]
  have 3: "get_atm batch0 (2 ^ 63) = Response 500 (ErrorBody (Str OverflowError))"
    by simp
  have 4: "list_all (\<lambda>r. atm_id r \<noteq> 6) batch0"
    using a by (simp add: list_all_iff)
  have 5: "to_dict (row0 2)
       = \<lparr>dict_id = 2, dict_name = ''United Bank ATM'', dict_lat = Fin (- (1 / 111)),
          dict_lng = Fin (- (1 / 111)), dict_address = ''1 Main St'',
          dict_services = [''Cash Withdrawal'', ''Bill Payment''],
          dict_fetched_at = Some (Isoformat 2)\<rparr>"
    by (simp add: to_dict_def row0_def)
  from reachable_batch0 m 1 2 3 4 5 show ?thesis by (simp only: simp_thms)
qed

section \<open>Cache misses\<close>

text \<open>
  C3. As stated the claim fails: at the default latitude 0, whose cosine is 1, a
  request that finds no fresh row and whose radius is 1 followed by 400 zeros is
  answered 500, the generator raising OverflowError, and returns no list.
\<close>

theorem cache_miss_overflow_counterexample:
  "float_arg [''radius'' \<mapsto> power_of_ten 400] ''lat'' 0 = Inr (Fin 0)
   \<and> libm0 0 = 1
   \<and> int_arg [''radius'' \<mapsto> power_of_ten 400] ''radius'' DEFAULT_RADIUS = Inr (10 ^ 400)
   \<and> filter (fetched_since (shd (clock (world_at 0)) - minutes 15)) [] = []
   \<and> get_atms (world_at 0) [''radius'' \<mapsto> power_of_ten 400] []
     = (Response 500 (ErrorBody (Str OverflowError)), [])"
proof -
  have "float_arg [''radius'' \<mapsto> power_of_ten 400] ''lat'' 0 = Inr (Fin 0)"
    by (simp add: float_arg_def float_of_int_0)
  moreover have "int_arg [''radius'' \<mapsto> power_of_ten 400] ''radius'' DEFAULT_RADIUS = Inr (10 ^ 400)"
    by (simp add: int_arg_def py_int_power_of_ten)
  moreover note libm0_0 get_atms_Inl [OF overflow_request_try]
  ultimately show ?thesis by simp
qed

text \<open>
  C3, amended. A request that finds no fresh row is answered either 500 or 200 with
  the rows the table then holds, which are as many as the number drawn from 5 to 15.
  It is answered 200 whenever lat and lng convert to finite numbers, the radius
  converts and its magnitude is below \<open>2^1024 - 2^970\<close>, the cosine computed for lat
  is not zero and the longitude span \<open>radius / (111000 * |cos|)\<close> is within the range
  of a double. It is answered 500 whenever the magnitude of the radius is
  \<open>2^1024 - 2^970\<close> or more.
\<close>

theorem cache_miss_returns_5_to_15:
  assumes "filter (fetched_since (shd (clock w) - minutes 15)) table = []"
  shows "((\<exists>e table'. get_atms w a table = (Response 500 (ErrorBody (Str e)), table'))
       \<or> (\<exists>atms. get_atms w a table = (Response 200 (AtmsBody (map to_dict atms)), atms)
             \<and> int (length atms) = num_atms_of w \<and> 5 \<le> length atms \<and> length atms \<le> 15))
    \<and> (float_arg a ''lat'' 0 = Inr (Fin x) \<and> float_arg a ''lng'' 0 = Inr (Fin y)
        \<and> int_arg a ''radius'' DEFAULT_RADIUS = Inr radius
        \<and> \<bar>real_of_int radius\<bar> < overflow_at \<and> cos_radians w x \<noteq> 0
        \<and> \<bar>real_of_int radius / (111000 * \<bar>cos_radians w x\<bar>)\<bar> < overflow_at
       \<longrightarrow> (\<exists>atms. get_atms w a table = (Response 200 (AtmsBody (map to_dict atms)), atms)
             \<and> int (length atms) = num_atms_of w \<and> 5 \<le> length atms \<and> length atms \<le> 15))
    \<and> (int_arg a ''radius'' DEFAULT_RADIUS = Inr radius \<and> overflow_at \<le> \<bar>real_of_int radius\<bar>
       \<longrightarrow> (\<exists>e. get_atms w a table = (Response 500 (ErrorBody (Str e)), table)))"
proof -
  let ?ok = "\<exists>atms. get_atms w a table = (Response 200 (AtmsBody (map to_dict atms)), atms)
             \<and> int (length atms) = num_atms_of w \<and> 5 \<le> length atms \<and> length atms \<le> 15"
  have rows: ?ok if t: "get_atms_try w a table = (Inr atms, table')" for atms table'
  proof -
    from get_atms_try_miss_Inr [OF assms t] obtain atm_data where
      e: "atms = table'" and n: "length atm_data = nat (num_atms_of w)"
      and b: "batch_of atm_data (stl (clock w)) table'"
      by blast
    from length_batch_of [OF b] n num_atms_range [of w]
    have "int (length table') = num_atms_of w \<and> 5 \<le> length table' \<and> length table' \<le> 15"
      by linarith
    with get_atms_Inr [OF t] e show ?thesis by blast
  qed
  have 1: "(\<exists>e table'. get_atms w a table = (Response 500 (ErrorBody (Str e)), table')) \<or> ?ok"
  proof -
    obtain res table' where t: "get_atms_try w a table = (res, table')"
      by (cases "get_atms_try w a table")
    show ?thesis
    proof (cases res)
      case (Inl e)
      from get_atms_Inl [OF t [unfolded Inl]] show ?thesis by blast
    next
      case (Inr atms)
      from rows [OF t [unfolded Inr]] show ?thesis by blast
    qed
  qed
  have 2: ?ok
    if p: "float_arg a ''lat'' 0 = Inr (Fin x)" "float_arg a ''lng'' 0 = Inr (Fin y)"
      "int_arg a ''radius'' DEFAULT_RADIUS = Inr radius"
      and s: "\<bar>real_of_int radius\<bar> < overflow_at" "cos_radians w x \<noteq> 0"
      "\<bar>real_of_int radius / (111000 * \<bar>cos_radians w x\<bar>)\<bar> < overflow_at"
  proof -
    from generate_mock_atms_finite [of radius "cos_radians w" x y "num_atms_of w" "stl (draws w)"] s
    obtain atm_data g' where g:
      "generate_mock_atms (cos_radians w) (Fin x) (Fin y) radius (num_atms_of w) (stl (draws w))
         = Inr (atm_data, g')"
      and f: "\<not> list_ex null_column atm_data"
      by blast
    from get_atms_try_miss_rows [OF p assms g] f
    have "get_atms_try w a table =
        (Inr (flush [] (fst (session_add_all atm_data (stl (clock w))))),
         flush [] (fst (session_add_all atm_data (stl (clock w)))))"
      by simp
    from rows [OF this] show ?thesis .
  qed
  have 3: "\<exists>e. get_atms w a table = (Response 500 (ErrorBody (Str e)), table)"
    if r: "int_arg a ''radius'' DEFAULT_RADIUS = Inr radius"
      and o: "overflow_at \<le> \<bar>real_of_int radius\<bar>"
  proof -
    from get_atms_try_cases [of w a table] show ?thesis
    proof (elim disjE conjE exE)
      assume "get_atms_try w a table = (Inl ValueError, table)"
      from get_atms_Inl [OF this] show ?thesis by blast
    next
      fix lat lng radius'
      assume p: "float_arg a ''lat'' 0 = Inr lat" "float_arg a ''lng'' 0 = Inr lng"
        "int_arg a ''radius'' DEFAULT_RADIUS = Inr radius'"
      with r have p3: "int_arg a ''radius'' DEFAULT_RADIUS = Inr radius" by simp
      from generate_mock_atms_overflow [OF o, of "cos_radians w" lat lng "num_atms_of w" "stl (draws w)"]
      obtain e where
        "generate_mock_atms (cos_radians w) lat lng radius (num_atms_of w) (stl (draws w)) = Inl e"
        by blast
      from get_atms_Inl [OF get_atms_try_miss_error [OF p(1,2) p3 assms this]]
      show ?thesis by blast
    qed
  qed
  from 1 2 3 show ?thesis by blast
qed

theorem cache_miss_returns_5_to_15_witness:
  "filter (fetched_since (shd (clock (world_at 0)) - minutes 15)) [] = []
   \<and> float_arg Map.empty ''lat'' 0 = Inr (Fin 0)
   \<and> float_arg Map.empty ''lng'' 0 = Inr (Fin 0)
   \<and> int_arg Map.empty ''radius'' DEFAULT_RADIUS = Inr 1000
   \<and> \<bar>real_of_int 1000\<bar> < overflow_at
   \<and> cos_radians (world_at 0) 0 \<noteq> 0
   \<and> \<bar>real_of_int 1000 / (111000 * \<bar>cos_radians (world_at 0) 0\<bar>)\<bar> < overflow_at
   \<and> get_atms (world_at 0) Map.empty [] = (Response 200 (AtmsBody (map to_dict batch0)), batch0)
   \<and> int (length batch0) = num_atms_of (world_at 0)
   \<and> length batch0 = 5
   \<and> int_arg [''radius'' \<mapsto> power_of_ten 400] ''radius'' DEFAULT_RADIUS = Inr (10 ^ 400)
   \<and> overflow_at \<le> \<bar>real_of_int (10 ^ 400)\<bar>
   \<and> (\<exists>e. get_atms (world_at 0) [''radius'' \<mapsto> power_of_ten 400] []
          = (Response 500 (ErrorBody (Str e)), []))"
proof -
  let ?w = "world_at 0"
  let ?b = "[''radius'' \<mapsto> power_of_ten 400]"
  have 0: "filter (fetched_since (shd (clock ?w) - minutes 15)) [] = []" by simp
  note 1 = float_arg_empty [of "''lat''"]
  note 2 = float_arg_empty [of "''lng''"]
  have 3: "int_arg Map.empty ''radius'' DEFAULT_RADIUS = Inr 1000"
    by (simp add: int_arg_empty DEFAULT_RADIUS_def)
  have 4: "\<bar>real_of_int 1000\<bar> < overflow_at" using overflow_at_large by simp
  have 5: "cos_radians ?w 0 \<noteq> 0" by (simp add: world_at_simps libm0_0)
  have 6: "\<bar>real_of_int 1000 / (111000 * \<bar>cos_radians ?w 0\<bar>)\<bar> < overflow_at"
    using overflow_at_large by (simp add: world_at_simps libm0_0)
  have 7: "int_arg ?b ''radius'' DEFAULT_RADIUS = Inr (10 ^ 400)"
    by (simp add: int_arg_def py_int_power_of_ten)
  have 8: "overflow_at \<le> \<bar>real_of_int (10 ^ 400)\<bar>"
    using overflow_at_less by simp
  note t = cache_miss_returns_5_to_15 [OF 0, of Map.empty 0 0 1000]
  from t 1 2 3 4 5 6 first_request
  have 9: "int (length batch0) = num_atms_of ?w"
    by auto
  from cache_miss_returns_5_to_15 [OF 0, of ?b 0 0 "10 ^ 400"] 7 8
  have 10: "\<exists>e. get_atms ?w ?b [] = (Response 500 (ErrorBody (Str e)), [])"
    by blast
  have 11: "length batch0 = 5" by (simp add: batch0_def)
  from 0 1 2 3 4 5 6 7 8 9 10 11 first_request show ?thesis by blast
qed

section \<open>What a refresh leaves in the table\<close>

text \<open>
  C2. A request that finds no fresh row and is answered 200 has generated a list
  from its own parameters, for the number it drew, and the table it leaves is the
  batch of that list: the dictionaries of the list in their order, under the keys
  1, 2, ..., each with the instant its row read. The rows returned are that table;
  no row of the table before is in it. Every table that requests produce from the
  empty one is empty or one generation's output.
\<close>

theorem refresh_replaces_table:
  "(filter (fetched_since (shd (clock w) - minutes 15)) table = []
      \<and> get_atms w a table = (Response 200 b, table')
    \<longrightarrow> b = AtmsBody (map to_dict table')
        \<and> (\<exists>lat lng radius atm_data g'.
              float_arg a ''lat'' 0 = Inr lat
              \<and> float_arg a ''lng'' 0 = Inr lng
              \<and> int_arg a ''radius'' DEFAULT_RADIUS = Inr radius
              \<and> generate_mock_atms (cos_radians w) lat lng radius (num_atms_of w) (stl (draws w))
                  = Inr (atm_data, g')
              \<and> length atm_data = nat (num_atms_of w)
              \<and> batch_of atm_data (stl (clock w)) table'
              \<and> table' = flush [] (fst (session_add_all atm_data (stl (clock w))))))
   \<and> (reachable s \<longrightarrow> s = [] \<or> one_generation s)"
proof -
  have "b = AtmsBody (map to_dict table')
        \<and> (\<exists>lat lng radius atm_data g'.
              float_arg a ''lat'' 0 = Inr lat
              \<and> float_arg a ''lng'' 0 = Inr lng
              \<and> int_arg a ''radius'' DEFAULT_RADIUS = Inr radius
              \<and> generate_mock_atms (cos_radians w) lat lng radius (num_atms_of w) (stl (draws w))
                  = Inr (atm_data, g')
              \<and> length atm_data = nat (num_atms_of w)
              \<and> batch_of atm_data (stl (clock w)) table'
              \<and> table' = flush [] (fst (session_add_all atm_data (stl (clock w)))))"
    if m: "filter (fetched_since (shd (clock w) - minutes 15)) table = []"
      and r: "get_atms w a table = (Response 200 b, table')"
  proof -
    obtain res t where t: "get_atms_try w a table = (res, t)"
      by (cases "get_atms_try w a table")
    from r t obtain atms where i: "res = Inr atms" and e: "t = table'"
      and b: "b = AtmsBody (map to_dict atms)"
      by (cases res) (auto simp: get_atms_def)
    from get_atms_try_miss_Inr [OF m t [unfolded i e]]
    obtain lat lng radius atm_data g' where f: "atms = table'"
      "float_arg a ''lat'' 0 = Inr lat" "float_arg a ''lng'' 0 = Inr lng"
      "int_arg a ''radius'' DEFAULT_RADIUS = Inr radius"
      "generate_mock_atms (cos_radians w) lat lng radius (num_atms_of w) (stl (draws w))
          = Inr (atm_data, g')"
      "length atm_data = nat (num_atms_of w)"
      "batch_of atm_data (stl (clock w)) table'"
      by blast
    from batch_of_unique [OF f(7) batch_of_new_rows]
    have "table' = flush [] (fst (session_add_all atm_data (stl (clock w))))" .
    with b f show ?thesis by blast
  qed
  with reachable_one_generation [of s] show ?thesis by blast
qed

theorem refresh_replaces_table_witness:
  "filter (fetched_since (shd (clock (world_at 0)) - minutes 15)) [] = []
   \<and> get_atms (world_at 0) Map.empty [] = (Response 200 (AtmsBody (map to_dict batch0)), batch0)
   \<and> batch_of (replicate 5 (atm0 (Fin (- (1 / 111))) (Fin (- (1 / 111)))))
        (stl (clock (world_at 0))) batch0
   \<and> reachable batch0
   \<and> batch0 \<noteq> []
   \<and> one_generation batch0"
proof -
  let ?w = "world_at 0"
  have m: "filter (fetched_since (shd (clock ?w) - minutes 15)) [] = []" by simp
  from refresh_replaces_table [of ?w "[]" Map.empty "AtmsBody (map to_dict batch0)" batch0 batch0]
    m first_request reachable_batch0 batch0_not_Nil
  have o: "one_generation batch0"
    and "\<exists>lat lng radius atm_data g'.
              float_arg Map.empty ''lat'' 0 = Inr lat
              \<and> float_arg Map.empty ''lng'' 0 = Inr lng
              \<and> int_arg Map.empty ''radius'' DEFAULT_RADIUS = Inr radius
              \<and> generate_mock_atms (cos_radians ?w) lat lng radius (num_atms_of ?w) (stl (draws ?w))
                  = Inr (atm_data, g')
              \<and> length atm_data = nat (num_atms_of ?w)
              \<and> batch_of atm_data (stl (clock ?w)) batch0
              \<and> batch0 = flush [] (fst (session_add_all atm_data (stl (clock ?w))))"
    by blast+
  then obtain lat lng radius atm_data g' where f:
    "float_arg Map.empty ''lat'' 0 = Inr lat" "float_arg Map.empty ''lng'' 0 = Inr lng"
    "int_arg Map.empty ''radius'' DEFAULT_RADIUS = Inr radius"
    "generate_mock_atms (cos_radians ?w) lat lng radius (num_atms_of ?w) (stl (draws ?w))
        = Inr (atm_data, g')"
    "batch_of atm_data (stl (clock ?w)) batch0"
    by blast
  from f(1,2,3) have "lat = Fin 0" "lng = Fin 0" "radius = 1000"
    by (simp_all add: float_arg_empty int_arg_empty DEFAULT_RADIUS_def)
  with f(4) generate_zero [of 5]
  have "atm_data = replicate 5 (atm0 (Fin (- (1 / 111))) (Fin (- (1 / 111))))"
    by (simp add: world_at_simps)
  with f(5) have "batch_of (replicate 5 (atm0 (Fin (- (1 / 111))) (Fin (- (1 / 111)))))
        (stl (clock ?w)) batch0"
    by simp
  with o m first_request reachable_batch0 batch0_not_Nil
  show ?thesis by (simp only: simp_thms)
qed

section \<open>Failures\<close>

text \<open>
  C5. As stated the claim fails: the table is emptied and that is committed before
  the new rows are inserted. The table below holds the five rows of a first request;
  16 minutes later a request with \<^verbatim>\<open>lat=nan\<close> generates dictionaries whose coordinates
  are NaN, the insert fails on the columns declared not null, and the request is
  answered 500 with the table left empty.
\<close>

theorem failed_insert_empties_table_counterexample:
  "reachable batch0
   \<and> batch0 \<noteq> []
   \<and> get_atms (world_at (minutes 16)) [''lat'' \<mapsto> ''nan''] batch0
     = (Response 500 (ErrorBody (Str IntegrityError)), [])"
  using reachable_batch0 batch0_not_Nil get_atms_Inl [OF nan_request_try]
  by (simp only: simp_thms)

text \<open>
  C5, amended. A request has one of five outcomes, each in the case stated. A
  parameter that does not convert: 500, the table as it was. A fresh row found: 200
  with the fresh rows, the table as it was. No fresh row and the generator raises:
  500 with that exception, the table as it was. No fresh row and a generated
  coordinate is NaN: 500, the table left empty. No fresh row otherwise: 200 with the
  rows of the table, which is the whole batch of the list generated. No outcome
  leaves a part of a batch or rows of two batches.
\<close>

theorem request_outcomes:
  "((\<exists>e. float_arg a ''lat'' 0 = Inl e \<or> float_arg a ''lng'' 0 = Inl e
          \<or> int_arg a ''radius'' DEFAULT_RADIUS = Inl e)
      \<longrightarrow> get_atms w a table = (Response 500 (ErrorBody (Str ValueError)), table))
   \<and> (float_arg a ''lat'' 0 = Inr lat \<and> float_arg a ''lng'' 0 = Inr lng
       \<and> int_arg a ''radius'' DEFAULT_RADIUS = Inr radius
      \<longrightarrow> (filter (fetched_since (shd (clock w) - minutes 15)) table \<noteq> []
            \<longrightarrow> get_atms w a table =
                  (Response 200 (AtmsBody (map to_dict
                     (filter (fetched_since (shd (clock w) - minutes 15)) table))), table))
        \<and> (filter (fetched_since (shd (clock w) - minutes 15)) table = []
            \<longrightarrow> (\<forall>e. generate_mock_atms (cos_radians w) lat lng radius (num_atms_of w)
                        (stl (draws w)) = Inl e
                      \<longrightarrow> get_atms w a table = (Response 500 (ErrorBody (Str e)), table))
              \<and> (\<forall>atm_data g'. generate_mock_atms (cos_radians w) lat lng radius (num_atms_of w)
                        (stl (draws w)) = Inr (atm_data, g')
                      \<longrightarrow> length atm_data = nat (num_atms_of w)
                          \<and> (list_ex null_column atm_data
                              \<longrightarrow> get_atms w a table
                                    = (Response 500 (ErrorBody (Str IntegrityError)), []))
                          \<and> (\<not> list_ex null_column atm_data
                              \<longrightarrow> (\<exists>rows. batch_of atm_data (stl (clock w)) rows
                                    \<and> get_atms w a table
                                        = (Response 200 (AtmsBody (map to_dict rows)), rows))))))"
proof -
  have unparsed: "get_atms w a table = (Response 500 (ErrorBody (Str ValueError)), table)"
    if "\<exists>e. float_arg a ''lat'' 0 = Inl e \<or> float_arg a ''lng'' 0 = Inl e
          \<or> int_arg a ''radius'' DEFAULT_RADIUS = Inl e"
  proof -
    from that obtain e where "float_arg a ''lat'' 0 = Inl e \<or> float_arg a ''lng'' 0 = Inl e
          \<or> int_arg a ''radius'' DEFAULT_RADIUS = Inl e"
      by blast
    from get_atms_Inl [OF get_atms_try_unparsed [OF this]] show ?thesis .
  qed
  have parsed: "(filter (fetched_since (shd (clock w) - minutes 15)) table \<noteq> []
            \<longrightarrow> get_atms w a table =
                  (Response 200 (AtmsBody (map to_dict
                     (filter (fetched_since (shd (clock w) - minutes 15)) table))), table))
        \<and> (filter (fetched_since (shd (clock w) - minutes 15)) table = []
            \<longrightarrow> (\<forall>e. generate_mock_atms (cos_radians w) lat lng radius (num_atms_of w)
                        (stl (draws w)) = Inl e
                      \<longrightarrow> get_atms w a table = (Response 500 (ErrorBody (Str e)), table))
              \<and> (\<forall>atm_data g'. generate_mock_atms (cos_radians w) lat lng radius (num_atms_of w)
                        (stl (draws w)) = Inr (atm_data, g')
                      \<longrightarrow> length atm_data = nat (num_atms_of w)
                          \<and> (list_ex null_column atm_data
                              \<longrightarrow> get_atms w a table
                                    = (Response 500 (ErrorBody (Str IntegrityError)), []))
                          \<and> (\<not> list_ex null_column atm_data
                              \<longrightarrow> (\<exists>rows. batch_of atm_data (stl (clock w)) rows
                                    \<and> get_atms w a table
                                        = (Response 200 (AtmsBody (map to_dict rows)), rows)))))"
    if p: "float_arg a ''lat'' 0 = Inr lat" "float_arg a ''lng'' 0 = Inr lng"
      "int_arg a ''radius'' DEFAULT_RADIUS = Inr radius"
  proof -
    let ?fresh = "filter (fetched_since (shd (clock w) - minutes 15)) table"
    let ?gen = "generate_mock_atms (cos_radians w) lat lng radius (num_atms_of w) (stl (draws w))"
    have hit: "get_atms w a table = (Response 200 (AtmsBody (map to_dict ?fresh)), table)"
      if "?fresh \<noteq> []"
      using get_atms_try_hit [OF p that] by (rule get_atms_Inr)
    have err: "get_atms w a table = (Response 500 (ErrorBody (Str e)), table)"
      if "?fresh = []" and "?gen = Inl e" for e
      using get_atms_try_miss_error [OF p that] by (rule get_atms_Inl)
    have len: "length atm_data = nat (num_atms_of w)"
      if "?fresh = []" and "?gen = Inr (atm_data, g')" for atm_data g'
      using get_atms_try_miss_rows [OF p that] by simp
    have null: "get_atms w a table = (Response 500 (ErrorBody (Str IntegrityError)), [])"
      if "?fresh = []" and "?gen = Inr (atm_data, g')" and "list_ex null_column atm_data"
      for atm_data g'
    proof -
      from get_atms_try_miss_rows [OF p that(1,2)] that(3)
      have "get_atms_try w a table = (Inl IntegrityError, [])" by simp
      then show ?thesis by (rule get_atms_Inl)
    qed
    have rows: "\<exists>rows. batch_of atm_data (stl (clock w)) rows
        \<and> get_atms w a table = (Response 200 (AtmsBody (map to_dict rows)), rows)"
      if "?fresh = []" and "?gen = Inr (atm_data, g')" and "\<not> list_ex null_column atm_data"
      for atm_data g'
    proof -
      let ?rows = "flush [] (fst (session_add_all atm_data (stl (clock w))))"
      from get_atms_try_miss_rows [OF p that(1,2)] that(3)
      have "get_atms_try w a table = (Inr ?rows, ?rows)" by simp
      from get_atms_Inr [OF this] batch_of_new_rows [of atm_data "stl (clock w)"]
      show ?thesis by blast
    qed
    from hit err len null rows show ?thesis by blast
  qed
  from unparsed parsed show ?thesis by blast
qed

theorem request_outcomes_witness:
  "float_arg [''lat'' \<mapsto> ''abc''] ''lat'' 0 = Inl ValueError
   \<and> get_atms (world_at 0) [''lat'' \<mapsto> ''abc''] batch0
       = (Response 500 (ErrorBody (Str ValueError)), batch0)
   \<and> filter (fetched_since (shd (clock (world_at (minutes 15 + 3))) - minutes 15)) batch0
       = [row0 3, row0 4, row0 5]
   \<and> get_atms (world_at (minutes 15 + 3)) Map.empty batch0
       = (Response 200 (AtmsBody (map to_dict [row0 3, row0 4, row0 5])), batch0)
   \<and> filter (fetched_since (shd (clock (world_at (minutes 16))) - minutes 15)) batch0 = []
   \<and> generate_mock_atms libm0 (Fin 0) (Fin 0) (10 ^ 400) 5 (sconst 0) = Inl OverflowError
   \<and> get_atms (world_at (minutes 16)) [''radius'' \<mapsto> power_of_ten 400] batch0
       = (Response 500 (ErrorBody (Str OverflowError)), batch0)
   \<and> generate_mock_atms libm0 NaN (Fin 0) 1000 5 (sconst 0)
       = Inr (replicate 5 (atm0 NaN NaN), sconst 0)
   \<and> list_ex null_column (replicate 5 (atm0 NaN NaN))
   \<and> get_atms (world_at (minutes 16)) [''lat'' \<mapsto> ''nan''] batch0
       = (Response 500 (ErrorBody (Str IntegrityError)), [])
   \<and> generate_mock_atms libm0 (Fin 0) (Fin 0) 1000 5 (sconst 0)
       = Inr (replicate 5 (atm0 (Fin (- (1 / 111))) (Fin (- (1 / 111)))), sconst 0)
   \<and> batch_of (replicate 5 (atm0 (Fin (- (1 / 111))) (Fin (- (1 / 111)))))
       (stl (clock (world_at 0))) batch0
   \<and> get_atms (world_at 0) Map.empty [] = (Response 200 (AtmsBody (map to_dict batch0)), batch0)"
proof -
  let ?late = "world_at (minutes 16)"
  let ?atm = "atm0 (Fin (- (1 / 111))) (Fin (- (1 / 111)))"
  have d: "int_arg c ''radius'' DEFAULT_RADIUS = Inr 1000" if "c ''radius'' = None" for c :: args
    using that by (simp add: int_arg_def DEFAULT_RADIUS_def)
  have z: "float_arg c k 0 = Inr (Fin 0)" if "c k = None" for c :: args and k
    using that by (simp add: float_arg_def float_of_int_0)
  have 1: "float_arg [''lat'' \<mapsto> ''abc''] ''lat'' 0 = Inl ValueError"
    by (simp add: float_arg_def py_float_abc)
  from request_outcomes [of "[''lat'' \<mapsto> ''abc'']" "world_at 0" batch0] 1
  have 2: "get_atms (world_at 0) [''lat'' \<mapsto> ''abc''] batch0
       = (Response 500 (ErrorBody (Str ValueError)), batch0)"
    by blast
  note 3 = filter_batch0
  have "filter (fetched_since (shd (clock (world_at (minutes 15 + 3))) - minutes 15)) batch0 \<noteq> []"
    by (simp add: 3)
  with request_outcomes [of Map.empty "world_at (minutes 15 + 3)" batch0 "Fin 0" "Fin 0" 1000]
    z [of Map.empty] d [of Map.empty]
  have 4: "get_atms (world_at (minutes 15 + 3)) Map.empty batch0
       = (Response 200 (AtmsBody (map to_dict [row0 3, row0 4, row0 5])), batch0)"
    by (simp add: 3)
  note 5 = filter_batch0_stale
  note 6 = generate_overflow [of libm0 "Fin 0" "Fin 0" 5 "sconst 0"]
  have r: "int_arg [''radius'' \<mapsto> power_of_ten 400] ''radius'' DEFAULT_RADIUS = Inr (10 ^ 400)"
    by (simp add: int_arg_def py_int_power_of_ten)
  from request_outcomes [of "[''radius'' \<mapsto> power_of_ten 400]" ?late batch0
      "Fin 0" "Fin 0" "10 ^ 400"] z [of "[''radius'' \<mapsto> power_of_ten 400]"] r 5 6
  have 7: "get_atms ?late [''radius'' \<mapsto> power_of_ten 400] batch0
       = (Response 500 (ErrorBody (Str OverflowError)), batch0)"
    by (simp add: world_at_simps)
  note 8 = generate_nan [of 5, simplified]
  have 9: "list_ex null_column (replicate 5 (atm0 NaN NaN))"
    by (simp add: list_ex_replicate5 atm0_not_null)
  have n: "float_arg [''lat'' \<mapsto> ''nan''] ''lat'' 0 = Inr NaN"
    by (simp add: float_arg_def py_float_nan)
  from request_outcomes [of "[''lat'' \<mapsto> ''nan'']" ?late batch0 NaN "Fin 0" 1000]
    n z [of "[''lat'' \<mapsto> ''nan'']" "''lng''"] d [of "[''lat'' \<mapsto> ''nan'']"] 5 8 9
  have 10: "get_atms ?late [''lat'' \<mapsto> ''nan''] batch0
       = (Response 500 (ErrorBody (Str IntegrityError)), [])"
    by (simp add: world_at_simps)
  note 11 = generate_zero [of 5, simplified]
  have f: "\<not> list_ex null_column (replicate 5 ?atm)"
    by (simp add: list_ex_replicate5 atm0_not_null)
  have "filter (fetched_since (shd (clock (world_at 0)) - minutes 15)) [] = []" by simp
  with request_outcomes [of Map.empty "world_at 0" "[]" "Fin 0" "Fin 0" 1000]
    z [of Map.empty] d [of Map.empty] 11 f
  obtain rows where b: "batch_of (replicate 5 ?atm) (stl (clock (world_at 0))) rows"
    and g: "get_atms (world_at 0) Map.empty [] = (Response 200 (AtmsBody (map to_dict rows)), rows)"
    by (auto simp: world_at_simps)
  have "rows = snd (get_atms (world_at 0) Map.empty [])"
    unfolding g by (simp only: snd_conv)
  also have "\<dots> = batch0"
    unfolding first_request by (simp only: snd_conv)
  finally have "rows = batch0" .
  with b have 12: "batch_of (replicate 5 ?atm) (stl (clock (world_at 0))) batch0" by simp
  from 1 2 3 4 5 6 7 8 9 10 11 12 first_request show ?thesis by (simp only: simp_thms)
qed

end
